theory Spec2Isabelle
  imports Complex_Main "HOL-Library.AList"
begin

section \<open>Tables\<close>

text \<open>
  The audit pipeline of \<^verbatim>\<open>data_utils.py\<close> works on pandas tables. A cell is a missing
  value (NaN, None, NaT), a text, a number or a timestamp. Numbers are read as the exact
  rationals they denote; timestamps are whole seconds since the epoch. A table has its
  list of column labels and its rows, every row an association list from label to cell.
  Column labels are taken to be pairwise distinct, as a spreadsheet export read by pandas
  has them.
\<close>

datatype cell = Null | Str string | Num rat | Ts int

type_synonym row = "(string \<times> cell) list"

record frame =
  columns :: "string list"
  rows :: "row list"

text \<open>The exceptions the pipeline can meet, and the lines it prints.\<close>

datatype error = KeyError string | TypeError string | AttributeError string | ReadError

datatype printed =
    Warning_Missing_date_columns "string list"
  | Error_processing_file error
  | Error_loading_IMD_data error

definition cell_at :: "row \<Rightarrow> string \<Rightarrow> cell" where
  "cell_at r c = (case map_of r c of Some v \<Rightarrow> v | None \<Rightarrow> Null)"

text \<open>\<^verbatim>\<open>df[c]\<close>: the values of a column, a KeyError when the table has no such column.\<close>

definition getitem :: "frame \<Rightarrow> string \<Rightarrow> error + cell list" where
  "getitem df c =
     (if c \<in> set (columns df) then Inr (map (\<lambda>r. cell_at r c) (rows df))
      else Inl (KeyError c))"

text \<open>
  \<^verbatim>\<open>df[c] = ...\<close> with a value computed row by row: an existing column is overwritten in
  place, a new one is appended.
\<close>

definition setitem :: "string \<Rightarrow> (row \<Rightarrow> cell) \<Rightarrow> frame \<Rightarrow> frame" where
  "setitem c f df =
     \<lparr>columns = (if c \<in> set (columns df) then columns df else columns df @ [c]),
      rows = map (\<lambda>r. AList.update c (f r) r) (rows df)\<rparr>"

text \<open>\<^verbatim>\<open>df.drop(columns=cs, errors='ignore')\<close>.\<close>

definition drop_columns :: "string list \<Rightarrow> frame \<Rightarrow> frame" where
  "drop_columns cs df =
     \<lparr>columns = filter (\<lambda>c. c \<notin> set cs) (columns df),
      rows = map (filter (\<lambda>kv. fst kv \<notin> set cs)) (rows df)\<rparr>"

text \<open>\<^verbatim>\<open>len(df[mask])\<close>: the number of rows a boolean mask selects, a Python integer.\<close>

definition count_rows :: "(row \<Rightarrow> bool) \<Rightarrow> frame \<Rightarrow> int" where
  "count_rows m df = int (length (filter m (rows df)))"

fun first_error :: "error option list \<Rightarrow> error option" where
  "first_error [] = None"
| "first_error (None # es) = first_error es"
| "first_error (Some e # es) = Some e"

definition need_column :: "frame \<Rightarrow> string \<Rightarrow> error option" where
  "need_column df c = (if c \<in> set (columns df) then None else Some (KeyError c))"

text \<open>
  A comparison of a column with a number (\<^verbatim>\<open>df[c] <= 15\<close>) needs the column, and raises
  a TypeError on a column that holds texts or timestamps. On a numeric column it is
  computed cell by cell, and a missing value compares false.
\<close>

definition is_numeric :: "cell \<Rightarrow> bool" where
  "is_numeric v = (case v of Null \<Rightarrow> True | Num _ \<Rightarrow> True | _ \<Rightarrow> False)"

definition need_numeric :: "frame \<Rightarrow> string \<Rightarrow> error option" where
  "need_numeric df c =
     (if c \<notin> set (columns df) then Some (KeyError c)
      else if list_all (\<lambda>r. is_numeric (cell_at r c)) (rows df) then None
      else Some (TypeError c))"

definition le_mask :: "string \<Rightarrow> rat \<Rightarrow> row \<Rightarrow> bool" where
  "le_mask c k r = (case cell_at r c of Num x \<Rightarrow> x \<le> k | _ \<Rightarrow> False)"

definition gt_mask :: "string \<Rightarrow> rat \<Rightarrow> row \<Rightarrow> bool" where
  "gt_mask c k r = (case cell_at r c of Num x \<Rightarrow> x > k | _ \<Rightarrow> False)"

definition eq_mask :: "string \<Rightarrow> string \<Rightarrow> row \<Rightarrow> bool" where
  "eq_mask c s r = (cell_at r c = Str s)"

section \<open>Compliance classifier\<close>

text \<open>The two branch conditions and the label of \<^verbatim>\<open>calculate_best_practice\<close>, on one row.\<close>

definition condition_mod :: "row \<Rightarrow> bool" where
  "condition_mod r =
     (eq_mask ''First Pain Score'' ''Mod Pain'' r \<and> le_mask ''Time_to_A1_Mins'' 15 r \<and>
      le_mask ''A1_to_PS2_Mins'' 30 r \<and> gt_mask ''A1_to_PS2_Mins'' 0 r)"

definition condition_sev :: "row \<Rightarrow> bool" where
  "condition_sev r =
     (eq_mask ''First Pain Score'' ''Sev Pain'' r \<and> le_mask ''Time_to_A1_Mins'' 15 r \<and>
      le_mask ''A1_to_PS2_Mins'' 15 r \<and> gt_mask ''A1_to_PS2_Mins'' 0 r)"

definition best_practice :: "row \<Rightarrow> cell" where
  "best_practice r =
     (if le_mask ''Time_to_PS1_Mins'' 15 r \<and> (condition_mod r \<or> condition_sev r)
      then Str ''Yes'' else Str ''No'')"

text \<open>Python's \<^verbatim>\<open>str\<close> of an integer, as the f-strings of the funnel labels use it.\<close>

definition digit_char :: "nat \<Rightarrow> char" where
  "digit_char d = char_of (48 + d)"

fun str_nat :: "nat \<Rightarrow> string" where
  "str_nat n = (if n < 10 then [digit_char n] else str_nat (n div 10) @ [digit_char (n mod 10)])"

definition str_int :: "int \<Rightarrow> string" where
  "str_int i = (if i < 0 then CHR ''-'' # str_nat (nat (- i)) else str_nat (nat i))"

definition label :: "string \<Rightarrow> int \<Rightarrow> string" where
  "label s n = s @ '' ('' @ str_int n @ '')''"

text \<open>
  The dictionary \<^verbatim>\<open>calculate_best_practice\<close> returns beside the table. Its key
  \<^verbatim>\<open>'value'\<close> is the field \<open>value_s\<close>.
\<close>

record sankey =
  labels :: "string list"
  source :: "nat list"
  target :: "nat list"
  value_s :: "int list"
  total_patients :: int
  best_practice_yes :: int
  best_practice_no :: int

definition sankey_data :: "frame \<Rightarrow> sankey" where
  "sankey_data df =
     (let total_patients = int (length (rows df));
          ps1_15_mins = count_rows (le_mask ''Time_to_PS1_Mins'' 15) df;
          severe_ps1_15_mins =
            count_rows (\<lambda>r. eq_mask ''First Pain Score'' ''Sev Pain'' r \<and>
                            le_mask ''Time_to_PS1_Mins'' 15 r) df;
          moderate_ps1_15_mins =
            count_rows (\<lambda>r. eq_mask ''First Pain Score'' ''Mod Pain'' r \<and>
                            le_mask ''Time_to_PS1_Mins'' 15 r) df;
          best_practice_yes = count_rows (eq_mask ''Best_Practice'' ''Yes'') df;
          best_practice_no = count_rows (eq_mask ''Best_Practice'' ''No'') df;
          ps1_a1_15_mins =
            count_rows (\<lambda>r. le_mask ''Time_to_PS1_Mins'' 15 r \<and>
                            le_mask ''Time_to_A1_Mins'' 15 r) df;
          severe_ps1_a1_15_mins =
            count_rows (\<lambda>r. eq_mask ''First Pain Score'' ''Sev Pain'' r \<and>
                            le_mask ''Time_to_PS1_Mins'' 15 r \<and>
                            le_mask ''Time_to_A1_Mins'' 15 r) df;
          moderate_ps1_a1_15_mins =
            count_rows (\<lambda>r. eq_mask ''First Pain Score'' ''Mod Pain'' r \<and>
                            le_mask ''Time_to_PS1_Mins'' 15 r \<and>
                            le_mask ''Time_to_A1_Mins'' 15 r) df;
          severe_best_practice =
            count_rows (\<lambda>r. eq_mask ''First Pain Score'' ''Sev Pain'' r \<and>
                            eq_mask ''Best_Practice'' ''Yes'' r) df;
          moderate_best_practice =
            count_rows (\<lambda>r. eq_mask ''First Pain Score'' ''Mod Pain'' r \<and>
                            eq_mask ''Best_Practice'' ''Yes'' r) df
      in \<lparr>labels =
            [label ''Total Patients'' total_patients,
             label ''PS1 <= 15 Mins'' ps1_15_mins,
             label ''PS1 > 15 Mins'' (total_patients - ps1_15_mins),
             label ''Severe Pain (PS1 <= 15 Mins)'' severe_ps1_15_mins,
             label ''Moderate Pain (PS1 <= 15 Mins)'' moderate_ps1_15_mins,
             label ''Sev Pain (PS1 & A1 <= 15 Mins)'' severe_ps1_a1_15_mins,
             label ''Mod Pain (PS1 & A1 <= 15 Mins)'' moderate_ps1_a1_15_mins,
             label ''Sev Pain (PS1&A1>15Mins)'' (severe_ps1_15_mins - severe_ps1_a1_15_mins),
             label ''Mod Pain (PS1&A1>15Mins)'' (moderate_ps1_15_mins - moderate_ps1_a1_15_mins),
             label ''Severe Pain Best Practice'' severe_best_practice,
             label ''Moderate Pain Best Practice'' moderate_best_practice,
             label ''Sev Pain (No Best Practice)'' (severe_ps1_a1_15_mins - severe_best_practice),
             label ''Mod Pain (No Best Practice)''
               (moderate_ps1_a1_15_mins - moderate_best_practice)],
          source = [0, 0, 1, 1, 3, 3, 4, 4, 5, 5, 6, 6],
          target = [1, 2, 3, 4, 5, 7, 6, 8, 9, 11, 10, 12],
          value_s =
            [ps1_15_mins,
             total_patients - ps1_15_mins,
             severe_ps1_15_mins,
             moderate_ps1_15_mins,
             severe_ps1_a1_15_mins,
             severe_ps1_15_mins - severe_ps1_a1_15_mins,
             moderate_ps1_a1_15_mins,
             moderate_ps1_15_mins - moderate_ps1_a1_15_mins,
             severe_best_practice,
             severe_ps1_a1_15_mins - severe_best_practice,
             moderate_best_practice,
             moderate_ps1_a1_15_mins - moderate_best_practice],
          total_patients = total_patients,
          best_practice_yes = best_practice_yes,
          best_practice_no = best_practice_no\<rparr>)"

text \<open>
  \<^verbatim>\<open>calculate_best_practice\<close>: the comparisons are evaluated in the order of the source
  (the first missing or ill-typed column raises), the column \<^verbatim>\<open>Best_Practice\<close> is
  assigned, and the funnel counts are taken over the table so extended.
\<close>

definition calculate_best_practice :: "frame \<Rightarrow> error + frame \<times> sankey" where
  "calculate_best_practice df =
     (case first_error
             [need_column df ''First Pain Score'',
              need_numeric df ''Time_to_A1_Mins'',
              need_numeric df ''A1_to_PS2_Mins'',
              need_numeric df ''Time_to_PS1_Mins''] of
        Some e \<Rightarrow> Inl e
      | None \<Rightarrow>
          (let df' = setitem ''Best_Practice'' best_practice df
           in Inr (df', sankey_data df')))"

text \<open>
  Reading the funnel: the count of a node is the total for the root and the value of the
  edge that enters it otherwise; the children of a node are the targets of the edges
  that leave it. The names of the thirteen nodes are those of the labels.
\<close>

definition node_count :: "sankey \<Rightarrow> nat \<Rightarrow> int" where
  "node_count s n =
     (if n = 0 then total_patients s
      else sum_list (map snd (filter (\<lambda>e. fst e = n) (zip (target s) (value_s s)))))"

definition children_sum :: "sankey \<Rightarrow> nat \<Rightarrow> int" where
  "children_sum s n = sum_list (map snd (filter (\<lambda>e. fst e = n) (zip (source s) (value_s s))))"

definition node_names :: "string list" where
  "node_names =
     [''Total Patients'', ''PS1 <= 15 Mins'', ''PS1 > 15 Mins'',
      ''Severe Pain (PS1 <= 15 Mins)'', ''Moderate Pain (PS1 <= 15 Mins)'',
      ''Sev Pain (PS1 & A1 <= 15 Mins)'', ''Mod Pain (PS1 & A1 <= 15 Mins)'',
      ''Sev Pain (PS1&A1>15Mins)'', ''Mod Pain (PS1&A1>15Mins)'',
      ''Severe Pain Best Practice'', ''Moderate Pain Best Practice'',
      ''Sev Pain (No Best Practice)'', ''Mod Pain (No Best Practice)'']"

section \<open>Library behaviour taken as given\<close>

text \<open>
  What pandas does to one cell is a parameter of the model wherever it depends on
  parsing or printing: \<open>to_datetime\<close> is
  \<^verbatim>\<open>pd.to_datetime(v, format='%d-%b-%y %H:%M', errors='coerce')\<close> on a cell that is not
  missing (\<open>None\<close> when pandas coerces to NaT), \<open>to_numeric\<close> is
  \<^verbatim>\<open>pd.to_numeric(v, errors='coerce')\<close> on a text or timestamp (\<open>None\<close> when pandas
  coerces to NaN), \<open>astype_str\<close> is \<^verbatim>\<open>str\<close> of a number or timestamp, and
  \<open>period_M\<close> prints the calendar month of a timestamp. Every theorem below holds for
  all such functions.
\<close>

record pandas =
  to_datetime :: "cell \<Rightarrow> int option"
  to_numeric :: "cell \<Rightarrow> rat option"
  astype_str :: "cell \<Rightarrow> string"
  period_M :: "int \<Rightarrow> string"

text \<open>
  Texts are byte strings. \<^verbatim>\<open>str.upper\<close> and \<^verbatim>\<open>str.strip\<close> are modelled on ASCII texts
  (every character below 128), where Python changes the letters a to z and nothing
  else; what is proved of join keys assumes the postcodes to be such texts.
\<close>

definition is_ascii :: "string \<Rightarrow> bool" where
  "is_ascii s = list_all (\<lambda>c. (of_char c :: nat) < 128) s"

definition upper_char :: "char \<Rightarrow> char" where
  "upper_char c =
     (let n = (of_char c :: nat) in if 97 \<le> n \<and> n \<le> 122 then char_of (n - 32) else c)"

definition str_upper :: "string \<Rightarrow> string" where
  "str_upper s = map upper_char s"

definition remove_spaces :: "string \<Rightarrow> string" where
  "remove_spaces s = filter (\<lambda>c. c \<noteq> CHR '' '') s"

text \<open>The ASCII characters \<^verbatim>\<open>str.isspace\<close> accepts: 9 to 13, 28 to 31 and the space.\<close>

definition is_space :: "char \<Rightarrow> bool" where
  "is_space c =
     (let n = (of_char c :: nat) in n = 32 \<or> (9 \<le> n \<and> n \<le> 13) \<or> (28 \<le> n \<and> n \<le> 31))"

definition strip :: "string \<Rightarrow> string" where
  "strip s = rev (dropWhile is_space (rev (dropWhile is_space s)))"

text \<open>\<^verbatim>\<open>.astype(str)\<close> on one cell: a missing value prints as \<^verbatim>\<open>nan\<close>.\<close>

definition str_of_cell :: "pandas \<Rightarrow> cell \<Rightarrow> string" where
  "str_of_cell pd v = (case v of Null \<Rightarrow> ''nan'' | Str s \<Rightarrow> s | _ \<Rightarrow> astype_str pd v)"

text \<open>\<^verbatim>\<open>.astype(str).str.upper().str.replace(' ', '')\<close>: the join key of a postcode.\<close>

definition join_key :: "pandas \<Rightarrow> cell \<Rightarrow> cell" where
  "join_key pd v = Str (remove_spaces (str_upper (str_of_cell pd v)))"

definition rename_columns :: "(string \<Rightarrow> string) \<Rightarrow> frame \<Rightarrow> frame" where
  "rename_columns f df =
     \<lparr>columns = map f (columns df),
      rows = map (map (\<lambda>kv. (f (fst kv), snd kv))) (rows df)\<rparr>"

definition empty_frame :: frame where
  "empty_frame = \<lparr>columns = [], rows = []\<rparr>"

text \<open>\<^verbatim>\<open>df.empty\<close>: no rows or no columns.\<close>

definition is_empty :: "frame \<Rightarrow> bool" where
  "is_empty df = (columns df = [] \<or> rows df = [])"

section \<open>Reference data and enrichment\<close>

definition IMD_Decile_header :: string where
  "IMD_Decile_header = ''LSOA containing postcode - Index of Multiple Deprivation (IMD) Decile (where 1 is most deprived 10% of LSOAs)''"

definition IMD_COLS :: "string list" where
  "IMD_COLS = [''Postcode'', IMD_Decile_header]"

definition COLS_TO_DROP :: "string list" where
  "COLS_TO_DROP = [''Surname'', ''Forename'']"

text \<open>
  \<^verbatim>\<open>load_imd_data\<close>. Its argument is what \<^verbatim>\<open>pd.read_csv(filepath, usecols=IMD_COLS)\<close>
  gave: the table of the two columns, or the exception it raised. Any exception ends in
  a printed line and an empty table.
\<close>

definition imd_rename :: "string \<Rightarrow> string" where
  "imd_rename c =
     (if c = ''Postcode'' then ''Postcode_Gov''
      else if c = IMD_Decile_header then ''IMD_Decile'' else c)"

definition load_imd_data :: "pandas \<Rightarrow> error + frame \<Rightarrow> frame \<times> printed list" where
  "load_imd_data pd file =
     (case file of
        Inl e \<Rightarrow> (empty_frame, [Error_loading_IMD_data e])
      | Inr df_imd \<Rightarrow>
          (let df = rename_columns imd_rename df_imd in
           if ''Postcode_Gov'' \<notin> set (columns df)
           then (empty_frame, [Error_loading_IMD_data (KeyError ''Postcode_Gov'')])
           else if 1 < count_list (columns df) ''Postcode_Gov''
           then (empty_frame, [Error_loading_IMD_data (AttributeError ''str'')])
           else (setitem ''Join_Key'' (\<lambda>r. join_key pd (cell_at r ''Postcode_Gov'')) df, [])))"

text \<open>\<^verbatim>\<open>map_quintile\<close>: a decile that is a text or a timestamp cannot be compared with 2.\<close>

definition map_quintile :: "cell \<Rightarrow> error + cell" where
  "map_quintile decile =
     (case decile of
        Null \<Rightarrow> Inr (Str ''Unknown'')
      | Num d \<Rightarrow>
          Inr (Str (if d \<le> 2 then ''1 - Most Deprived''
                    else if d \<le> 4 then ''2''
                    else if d \<le> 6 then ''3''
                    else if d \<le> 8 then ''4''
                    else ''5 - Least Deprived''))
      | _ \<Rightarrow> Inl (TypeError ''IMD_Decile''))"

text \<open>
  \<^verbatim>\<open>load_and_clean_pain_data\<close>. Its argument is what \<^verbatim>\<open>pd.read_excel(filepath, header=4)\<close>
  gave.
\<close>

definition load_and_clean_pain_data :: "error + frame \<Rightarrow> error + frame" where
  "load_and_clean_pain_data file =
     (case file of
        Inl e \<Rightarrow> Inl e
      | Inr df \<Rightarrow> Inr (drop_columns COLS_TO_DROP (rename_columns strip df)))"

text \<open>
  \<^verbatim>\<open>create_join_keys\<close>. Without the column the read of \<^verbatim>\<open>df['Postcode']\<close> raises a
  KeyError; with the label twice among the columns it is a table, whose \<^verbatim>\<open>.str\<close> raises
  an AttributeError.
\<close>

definition create_join_keys :: "pandas \<Rightarrow> frame \<Rightarrow> error + frame" where
  "create_join_keys pd df =
     (if ''Postcode'' \<notin> set (columns df) then Inl (KeyError ''Postcode'')
      else if 1 < count_list (columns df) ''Postcode'' then Inl (AttributeError ''str'')
      else Inr (setitem ''Join_Key'' (\<lambda>r. join_key pd (cell_at r ''Postcode'')) df))"

text \<open>
  \<^verbatim>\<open>df.merge(imd_df[['Join_Key', 'IMD_Decile']], on='Join_Key', how='left')\<close>: every row of
  the left table, in order, is paired with every row of the right table that has its
  key, in order, and kept once with a missing decile when there is none.
\<close>

definition matches :: "row list \<Rightarrow> row \<Rightarrow> row list" where
  "matches right l = filter (\<lambda>e. cell_at e ''Join_Key'' = cell_at l ''Join_Key'') right"

definition left_merge_row :: "row list \<Rightarrow> row \<Rightarrow> row list" where
  "left_merge_row right l =
     (case matches right l of
        [] \<Rightarrow> [AList.update ''IMD_Decile'' Null l]
      | e # es \<Rightarrow> map (\<lambda>m. AList.update ''IMD_Decile'' (cell_at m ''IMD_Decile'') l) (e # es))"

definition merge_left :: "frame \<Rightarrow> frame \<Rightarrow> frame" where
  "merge_left df right =
     \<lparr>columns = columns df @ [''IMD_Decile''],
      rows = concat (map (left_merge_row (rows right)) (rows df))\<rparr>"

text \<open>\<^verbatim>\<open>df[c] = df[...].apply(f)\<close> for a function that can raise.\<close>

fun apply_rows :: "(row \<Rightarrow> error + cell) \<Rightarrow> string \<Rightarrow> row list \<Rightarrow> error + row list" where
  "apply_rows f c [] = Inr []"
| "apply_rows f c (r # rs) =
     (case f r of
        Inl e \<Rightarrow> Inl e
      | Inr v \<Rightarrow>
          (case apply_rows f c rs of
             Inl e \<Rightarrow> Inl e
           | Inr rs' \<Rightarrow> Inr (AList.update c v r # rs')))"

text \<open>
  \<^verbatim>\<open>merge_with_imd_data\<close>. A left table that already has a column \<^verbatim>\<open>IMD_Decile\<close> gets
  suffixed columns from the merge, and the read of \<^verbatim>\<open>df['IMD_Decile']\<close> after it raises.
\<close>

definition merge_with_imd_data :: "frame \<Rightarrow> frame option \<Rightarrow> error + frame" where
  "merge_with_imd_data df imd_df =
     (case imd_df of
        None \<Rightarrow> Inr (setitem ''IMD_Quintile'' (\<lambda>r. Str ''Unknown'') df)
      | Some imd \<Rightarrow>
          if is_empty imd then Inr (setitem ''IMD_Quintile'' (\<lambda>r. Str ''Unknown'') df)
          else
            (case first_error
                    [need_column imd ''Join_Key'',
                     need_column imd ''IMD_Decile'',
                     need_column df ''Join_Key'',
                     if ''IMD_Decile'' \<in> set (columns df) then Some (KeyError ''IMD_Decile'')
                     else None] of
               Some e \<Rightarrow> Inl e
             | None \<Rightarrow>
                 (let merged = merge_left df imd in
                  case apply_rows (\<lambda>r. map_quintile (cell_at r ''IMD_Decile'')) ''IMD_Quintile''
                         (rows merged) of
                    Inl e \<Rightarrow> Inl e
                  | Inr rs \<Rightarrow>
                      Inr (drop_columns [''Postcode'', ''Join_Key'', ''Postcode_Gov'']
                             \<lparr>columns =
                                (if ''IMD_Quintile'' \<in> set (columns merged) then columns merged
                                 else columns merged @ [''IMD_Quintile'']),
                              rows = rs\<rparr>))))"

text \<open>
  What the assignment of \<^verbatim>\<open>IMD_Quintile\<close> and the drop of the scaffolding columns do to one
  row of the merged table, when \<^verbatim>\<open>map_quintile\<close> does not raise on it.
\<close>

definition finish :: "row \<Rightarrow> row" where
  "finish r =
     filter (\<lambda>kv. fst kv \<notin> set [''Postcode'', ''Join_Key'', ''Postcode_Gov''])
       (AList.update ''IMD_Quintile'' (projr (map_quintile (cell_at r ''IMD_Decile''))) r)"


text \<open>What \<^verbatim>\<open>load_imd_data\<close> makes of one row of the reference file.\<close>

definition reference_row :: "pandas \<Rightarrow> row \<Rightarrow> row" where
  "reference_row pd e =
     AList.update ''Join_Key''
       (join_key pd (cell_at (map (\<lambda>kv. (imd_rename (fst kv), snd kv)) e) ''Postcode_Gov''))
       (map (\<lambda>kv. (imd_rename (fst kv), snd kv)) e)"


text \<open>
  The normalised postcode in the words of the specification: upper case, spaces removed.
  It is written with a table of the 26 letters, apart from the code's own
  \<open>upper_char\<close>, and the two are compared below.
\<close>

definition lower_letters :: string where
  "lower_letters = ''abcdefghijklmnopqrstuvwxyz''"

definition upper_letters :: string where
  "upper_letters = ''ABCDEFGHIJKLMNOPQRSTUVWXYZ''"

definition ascii_upper :: "char \<Rightarrow> char" where
  "ascii_upper c = (case map_of (zip lower_letters upper_letters) c of Some u \<Rightarrow> u | None \<Rightarrow> c)"

definition normalized_postcode :: "string \<Rightarrow> string" where
  "normalized_postcode s = filter (\<lambda>c. c \<noteq> CHR '' '') (map ascii_upper s)"

section \<open>Temporal derivation\<close>

definition date_cols :: "string list" where
  "date_cols =
     [''Arrival DTTM'', ''Triage DTTM'', ''First Pain Score DTTM'',
      ''First Analgesia DTTM'', ''Second Pain Score DTTM'']"

definition to_datetime_cell :: "pandas \<Rightarrow> cell \<Rightarrow> cell" where
  "to_datetime_cell pd v =
     (case v of
        Null \<Rightarrow> Null
      | _ \<Rightarrow> (case to_datetime pd v of None \<Rightarrow> Null | Some t \<Rightarrow> Ts t))"

text \<open>\<^verbatim>\<open>convert_date_columns\<close>: the loop over the column names, skipping absent ones.\<close>

fun convert_date_columns :: "pandas \<Rightarrow> frame \<Rightarrow> string list \<Rightarrow> frame" where
  "convert_date_columns pd df [] = df"
| "convert_date_columns pd df (col # cols) =
     convert_date_columns pd
       (if col \<in> set (columns df)
        then setitem col (\<lambda>r. to_datetime_cell pd (cell_at r col)) df
        else df)
       cols"

text \<open>
  \<^verbatim>\<open>(df[a] - df[b]).dt.total_seconds() / 60\<close> on one row of two datetime columns: a
  missing operand gives a missing interval.
\<close>

definition minutes_between :: "cell \<Rightarrow> cell \<Rightarrow> cell" where
  "minutes_between a b =
     (case a of
        Ts x \<Rightarrow> (case b of Ts y \<Rightarrow> Num (of_int (x - y) / 60) | _ \<Rightarrow> Null)
      | _ \<Rightarrow> Null)"

definition is_datetime :: "cell \<Rightarrow> bool" where
  "is_datetime v = (case v of Null \<Rightarrow> True | Ts _ \<Rightarrow> True | _ \<Rightarrow> False)"

text \<open>
  The subtraction and the \<^verbatim>\<open>.dt\<close> accessor raise on a column of texts or numbers (a
  TypeError or an AttributeError in pandas; the model names both \<open>TypeError\<close>).
\<close>

definition need_datetime :: "frame \<Rightarrow> string \<Rightarrow> error option" where
  "need_datetime df c =
     (if c \<notin> set (columns df) then Some (KeyError c)
      else if list_all (\<lambda>r. is_datetime (cell_at r c)) (rows df) then None
      else Some (TypeError c))"

definition interval :: "string \<Rightarrow> string \<Rightarrow> string \<Rightarrow> frame \<Rightarrow> frame" where
  "interval c a b df = setitem c (\<lambda>r. minutes_between (cell_at r a) (cell_at r b)) df"

text \<open>\<^verbatim>\<open>calculate_time_intervals\<close>, with the lines it prints.\<close>

definition calculate_time_intervals :: "frame \<Rightarrow> error + frame \<times> printed list" where
  "calculate_time_intervals df =
     (let missing_cols = filter (\<lambda>col. col \<notin> set (columns df)) date_cols in
      if missing_cols \<noteq> [] then Inr (df, [Warning_Missing_date_columns missing_cols])
      else if ''Arrival DTTM'' \<in> set (columns df) then
        (case first_error
                [need_datetime df ''Triage DTTM'', need_datetime df ''Arrival DTTM'',
                 need_datetime df ''First Pain Score DTTM'',
                 need_datetime df ''First Analgesia DTTM'',
                 need_datetime df ''Second Pain Score DTTM''] of
           Some e \<Rightarrow> Inl e
         | None \<Rightarrow>
             Inr (interval ''PS2_to_A1_Mins'' ''First Analgesia DTTM'' ''Second Pain Score DTTM''
                   (interval ''A1_to_PS2_Mins'' ''Second Pain Score DTTM'' ''First Analgesia DTTM''
                   (interval ''Time_to_PS2_Mins'' ''Second Pain Score DTTM'' ''Arrival DTTM''
                   (interval ''Time_to_A1_Mins'' ''First Analgesia DTTM'' ''Arrival DTTM''
                   (interval ''Time_to_PS1_Mins'' ''First Pain Score DTTM'' ''Arrival DTTM''
                   (interval ''Time_to_Triage_Mins'' ''Triage DTTM'' ''Arrival DTTM'' df))))),
                  []))
      else Inr (df, []))"

section \<open>Categorical derivation\<close>

definition score_map :: "cell \<Rightarrow> cell" where
  "score_map v =
     (if v = Str ''No Pain'' then Num 0
      else if v = Str ''Mild Pain'' then Num 1
      else if v = Str ''Mod Pain'' then Num 2
      else if v = Str ''Sev Pain'' then Num 3
      else Null)"

definition num_minus :: "cell \<Rightarrow> cell \<Rightarrow> cell" where
  "num_minus a b =
     (case a of
        Num x \<Rightarrow> (case b of Num y \<Rightarrow> Num (x - y) | _ \<Rightarrow> Null)
      | _ \<Rightarrow> Null)"

definition calculate_pain_scores :: "frame \<Rightarrow> error + frame" where
  "calculate_pain_scores df =
     (case first_error [need_column df ''First Pain Score'', need_column df ''Second Pain Score''] of
        Some e \<Rightarrow> Inl e
      | None \<Rightarrow>
          Inr (setitem ''Pain_Score_Improvement''
                 (\<lambda>r. num_minus (cell_at r ''Second_Score_Num'') (cell_at r ''First_Score_Num''))
              (setitem ''Second_Score_Num'' (\<lambda>r. score_map (cell_at r ''Second Pain Score''))
              (setitem ''First_Score_Num'' (\<lambda>r. score_map (cell_at r ''First Pain Score'')) df))))"

definition to_numeric_cell :: "pandas \<Rightarrow> cell \<Rightarrow> cell" where
  "to_numeric_cell pd v =
     (case v of
        Null \<Rightarrow> Null
      | Num x \<Rightarrow> Num x
      | _ \<Rightarrow> (case to_numeric pd v of None \<Rightarrow> Null | Some x \<Rightarrow> Num x))"

text \<open>
  \<^verbatim>\<open>pd.cut(x, bins=bins, labels=labels, right=False)\<close> on one number: the label of the
  first band \<open>[lo, hi)\<close> that holds it, and a missing value when no band does.
\<close>

fun cut :: "rat list \<Rightarrow> string list \<Rightarrow> rat \<Rightarrow> cell" where
  "cut (lo # hi # bins) (l # ls) x =
     (if lo \<le> x \<and> x < hi then Str l else cut (hi # bins) ls x)"
| "cut bins ls x = Null"

definition age_bins :: "rat list" where
  "age_bins = [0, 15, 25, 35, 45, 55, 65, 75, 85, 95, 150]"

definition age_labels :: "string list" where
  "age_labels =
     [''0-15'', ''15-25'', ''25-35'', ''35-45'', ''45-55'', ''55-65'', ''65-75'', ''75-85'',
      ''85-95'', ''95+'']"

definition age_group :: "cell \<Rightarrow> cell" where
  "age_group v = (case v of Num x \<Rightarrow> cut age_bins age_labels x | _ \<Rightarrow> Null)"

definition create_age_groups :: "pandas \<Rightarrow> frame \<Rightarrow> error + frame" where
  "create_age_groups pd df =
     (if ''Age'' \<in> set (columns df)
      then Inr (setitem ''Age_Group'' (\<lambda>r. age_group (cell_at r ''Age''))
                 (setitem ''Age'' (\<lambda>r. to_numeric_cell pd (cell_at r ''Age'')) df))
      else Inl (KeyError ''Age''))"

section \<open>The pipeline\<close>

text \<open>
  \<^verbatim>\<open>process_monthly_data\<close> (the second definition of that name, which is the one in
  force). It returns the table when there is no arrival column, the pair that
  \<^verbatim>\<open>calculate_best_practice\<close> returns when there is one, and \<^verbatim>\<open>None\<close> after any
  exception, which it prints.
\<close>

datatype outcome = Table frame | Table_and_sankey frame sankey

definition report_month :: "pandas \<Rightarrow> cell \<Rightarrow> cell" where
  "report_month pd v = (case v of Ts t \<Rightarrow> Str (period_M pd t) | _ \<Rightarrow> Str ''NaT'')"

definition basic_calculations :: "pandas \<Rightarrow> frame \<Rightarrow> (error + outcome) \<times> printed list" where
  "basic_calculations pd df =
     (case need_datetime df ''Arrival DTTM'' of
        Some e \<Rightarrow> (Inl e, [])
      | None \<Rightarrow>
          (case calculate_time_intervals
                  (setitem ''Report_Month'' (\<lambda>r. report_month pd (cell_at r ''Arrival DTTM'')) df) of
             Inl e \<Rightarrow> (Inl e, [])
           | Inr (df1, out) \<Rightarrow>
               (case calculate_pain_scores df1 of
                  Inl e \<Rightarrow> (Inl e, out)
                | Inr df2 \<Rightarrow>
                    (case create_age_groups pd df2 of
                       Inl e \<Rightarrow> (Inl e, out)
                     | Inr df3 \<Rightarrow>
                         (case calculate_best_practice df3 of
                            Inl e \<Rightarrow> (Inl e, out)
                          | Inr (df4, s) \<Rightarrow> (Inr (Table_and_sankey df4 s), out))))))"

definition enrich :: "pandas \<Rightarrow> error + frame \<Rightarrow> frame option \<Rightarrow> error + frame" where
  "enrich pd pain_data_file imd_df =
     (case load_and_clean_pain_data pain_data_file of
        Inl e \<Rightarrow> Inl e
      | Inr df \<Rightarrow>
          (case create_join_keys pd df of
             Inl e \<Rightarrow> Inl e
           | Inr df1 \<Rightarrow> merge_with_imd_data df1 imd_df))"

definition process_steps ::
  "pandas \<Rightarrow> error + frame \<Rightarrow> frame option \<Rightarrow> (error + outcome) \<times> printed list" where
  "process_steps pd pain_data_file imd_df =
     (case enrich pd pain_data_file imd_df of
        Inl e \<Rightarrow> (Inl e, [])
      | Inr df \<Rightarrow>
          (let df1 = convert_date_columns pd df date_cols in
           if ''Arrival DTTM'' \<in> set (columns df1) then basic_calculations pd df1
           else (Inr (Table df1), [])))"

definition process_monthly_data ::
  "pandas \<Rightarrow> error + frame \<Rightarrow> frame option \<Rightarrow> outcome option \<times> printed list" where
  "process_monthly_data pd pain_data_file imd_df =
     (case process_steps pd pain_data_file imd_df of
        (Inl e, out) \<Rightarrow> (None, out @ [Error_processing_file e])
      | (Inr res, out) \<Rightarrow> (Some res, out))"

section \<open>Statistical dispatcher\<close>











section \<open>Example tables\<close>




text \<open>One patient in mild pain, scored and treated within five minutes.\<close>

definition mild_only :: frame where
  "mild_only =
     \<lparr>columns = [''First Pain Score'', ''Time_to_PS1_Mins'', ''Time_to_A1_Mins'', ''A1_to_PS2_Mins''],
      rows =
        [[(''First Pain Score'', Str ''Mild Pain''), (''Time_to_PS1_Mins'', Num 5),
          (''Time_to_A1_Mins'', Num 5), (''A1_to_PS2_Mins'', Num 5)]]\<rparr>"

definition mild_only_out :: frame where
  "mild_only_out =
     \<lparr>columns = [''First Pain Score'', ''Time_to_PS1_Mins'', ''Time_to_A1_Mins'', ''A1_to_PS2_Mins'',
                 ''Best_Practice''],
      rows =
        [[(''First Pain Score'', Str ''Mild Pain''), (''Time_to_PS1_Mins'', Num 5),
          (''Time_to_A1_Mins'', Num 5), (''A1_to_PS2_Mins'', Num 5),
          (''Best_Practice'', Str ''No'')]]\<rparr>"

text \<open>
  A library instance that parses nothing, for examples whose cells need no parsing, and
  six ages: 15, 95, 150, -1, a missing one and a text.
\<close>

definition plain_pandas :: pandas where
  "plain_pandas =
     \<lparr>to_datetime = (\<lambda>v. None), to_numeric = (\<lambda>v. None), astype_str = (\<lambda>v. ''''),
      period_M = (\<lambda>t. '''')\<rparr>"

definition ages :: frame where
  "ages =
     \<lparr>columns = [''Age''],
      rows = [[(''Age'', Num 15)], [(''Age'', Num 95)], [(''Age'', Num 150)], [(''Age'', Num (- 1))],
              [(''Age'', Null)], [(''Age'', Str ''abc'')]]\<rparr>"

definition ages_out :: frame where
  "ages_out =
     \<lparr>columns = [''Age'', ''Age_Group''],
      rows =
        [[(''Age'', Num 15), (''Age_Group'', Str ''15-25'')],
         [(''Age'', Num 95), (''Age_Group'', Str ''95+'')],
         [(''Age'', Num 150), (''Age_Group'', Null)],
         [(''Age'', Num (- 1)), (''Age_Group'', Null)],
         [(''Age'', Null), (''Age_Group'', Null)],
         [(''Age'', Null), (''Age_Group'', Null)]]\<rparr>"

text \<open>
  One patient with the join key built, a reference table with one entry for the
  postcode, and one that lists the postcode twice with different deciles.
\<close>

definition one_patient :: frame where
  "one_patient =
     \<lparr>columns = [''Age'', ''Postcode'', ''Join_Key''],
      rows = [[(''Age'', Num 40), (''Postcode'', Str ''ab1 2cd''), (''Join_Key'', Str ''AB12CD'')]]\<rparr>"

definition single_reference :: frame where
  "single_reference =
     \<lparr>columns = [''Postcode_Gov'', ''IMD_Decile'', ''Join_Key''],
      rows =
        [[(''Postcode_Gov'', Str ''AB1 2CD''), (''IMD_Decile'', Num 3), (''Join_Key'', Str ''AB12CD'')],
         [(''Postcode_Gov'', Str ''ZZ9 9ZZ''), (''IMD_Decile'', Num 9), (''Join_Key'', Str ''ZZ99ZZ'')]]\<rparr>"

definition duplicate_reference :: frame where
  "duplicate_reference =
     \<lparr>columns = [''Postcode_Gov'', ''IMD_Decile'', ''Join_Key''],
      rows =
        [[(''Postcode_Gov'', Str ''AB1 2CD''), (''IMD_Decile'', Num 3), (''Join_Key'', Str ''AB12CD'')],
         [(''Postcode_Gov'', Str ''AB12CD''), (''IMD_Decile'', Num 7), (''Join_Key'', Str ''AB12CD'')]]\<rparr>"

definition one_patient_enriched :: frame where
  "one_patient_enriched =
     \<lparr>columns = [''Age'', ''IMD_Decile'', ''IMD_Quintile''],
      rows = [[(''Age'', Num 40), (''IMD_Decile'', Num 3), (''IMD_Quintile'', Str ''2'')]]\<rparr>"

definition one_patient_twice :: frame where
  "one_patient_twice =
     \<lparr>columns = [''Age'', ''IMD_Decile'', ''IMD_Quintile''],
      rows =
        [[(''Age'', Num 40), (''IMD_Decile'', Num 3), (''IMD_Quintile'', Str ''2'')],
         [(''Age'', Num 40), (''IMD_Decile'', Num 7), (''IMD_Quintile'', Str ''4'')]]\<rparr>"

definition one_patient_unknown :: frame where
  "one_patient_unknown =
     \<lparr>columns = [''Age'', ''Postcode'', ''Join_Key'', ''IMD_Quintile''],
      rows =
        [[(''Age'', Num 40), (''Postcode'', Str ''ab1 2cd''), (''Join_Key'', Str ''AB12CD''),
          (''IMD_Quintile'', Str ''Unknown'')]]\<rparr>"

text \<open>The same patient as ingested, and the reference file as read.\<close>

definition raw_patient :: frame where
  "raw_patient =
     \<lparr>columns = [''Age'', ''Postcode''],
      rows = [[(''Age'', Num 40), (''Postcode'', Str ''ab1 2cd'')]]\<rparr>"

definition reference_file :: frame where
  "reference_file =
     \<lparr>columns = IMD_COLS,
      rows =
        [[(''Postcode'', Str ''AB1 2CD''), (IMD_Decile_header, Num 3)],
         [(''Postcode'', Str ''ZZ9 9ZZ''), (IMD_Decile_header, Num 9)]]\<rparr>"

text \<open>A reference file whose entry for the postcode has a blank decile.\<close>

definition blank_decile_file :: frame where
  "blank_decile_file =
     \<lparr>columns = IMD_COLS,
      rows = [[(''Postcode'', Str ''AB1 2CD''), (IMD_Decile_header, Null)]]\<rparr>"

definition blank_reference :: frame where
  "blank_reference =
     \<lparr>columns = [''Postcode_Gov'', ''IMD_Decile'', ''Join_Key''],
      rows =
        [[(''Postcode_Gov'', Str ''AB1 2CD''), (''IMD_Decile'', Null), (''Join_Key'', Str ''AB12CD'')]]\<rparr>"

definition one_patient_blank :: frame where
  "one_patient_blank =
     \<lparr>columns = [''Age'', ''IMD_Decile'', ''IMD_Quintile''],
      rows = [[(''Age'', Num 40), (''IMD_Decile'', Null), (''IMD_Quintile'', Str ''Unknown'')]]\<rparr>"

text \<open>
  Two ingested tables of one record each: one without a postcode column, one with
  neither postcode nor arrival time, and one with a postcode and no arrival time.
\<close>

definition no_postcode :: frame where
  "no_postcode =
     \<lparr>columns = [''Age'', ''Arrival DTTM''],
      rows = [[(''Age'', Num 40), (''Arrival DTTM'', Str ''05-Jan-24 10:00'')]]\<rparr>"






section \<open>Properties\<close>

subsection \<open>Tables and the row-wise classifier\<close>


lemma cell_at_update:
  "cell_at (AList.update c v r) c' = (if c' = c then v else cell_at r c')"
  by (simp add: cell_at_def update_conv')

lemma calculate_best_practice_Inr:
  assumes "calculate_best_practice df = Inr (df', s)"
  shows "df' = setitem ''Best_Practice'' best_practice df" and "s = sankey_data df'"
  using assms by (auto simp: calculate_best_practice_def Let_def split: option.splits)

lemma rows_setitem: "rows (setitem c f df) = map (\<lambda>r. AList.update c (f r) r) (rows df)"
  by (simp add: setitem_def)








lemma row_setitem:
  "i < length (rows df) \<Longrightarrow> rows (setitem c f df) ! i = AList.update c (f (rows df ! i)) (rows df ! i)"
  by (simp add: setitem_def)

lemma length_rows_setitem: "length (rows (setitem c f df)) = length (rows df)"
  by (simp add: setitem_def)


subsection \<open>C1: the best-practice rule\<close>



subsection \<open>Counting rows\<close>


lemma count_rows_nonneg: "0 \<le> count_rows m df"
  by (simp add: count_rows_def)

lemma count_rows_mono:
  assumes "\<And>r. r \<in> set (rows df) \<Longrightarrow> p r \<Longrightarrow> q r"
  shows "count_rows p df \<le> count_rows q df"
proof -
  have "filter p (rows df) = filter p (filter q (rows df))"
    using assms by (auto intro: filter_cong)
  then have "length (filter p (rows df)) \<le> length (filter q (rows df))"
    by (metis length_filter_le)
  then show ?thesis by (simp add: count_rows_def)
qed

lemma count_rows_le_length: "count_rows m df \<le> int (length (rows df))"
  by (simp add: count_rows_def)

lemma count_rows_split:
  "count_rows p df = count_rows (\<lambda>r. p r \<and> q r) df + count_rows (\<lambda>r. p r \<and> \<not> q r) df"
proof -
  have "length (filter p xs) = length (filter (\<lambda>r. p r \<and> q r) xs) + length (filter (\<lambda>r. p r \<and> \<not> q r) xs)" for xs
    by (induction xs) auto
  then show ?thesis by (simp add: count_rows_def)
qed

lemma count_rows_zero_iff: "count_rows p df = 0 \<longleftrightarrow> (\<forall>r\<in>set (rows df). \<not> p r)"
  by (simp add: count_rows_def filter_empty_conv)

lemma sankey_data_fields:
  "source (sankey_data df) = [0, 0, 1, 1, 3, 3, 4, 4, 5, 5, 6, 6]"
  "target (sankey_data df) = [1, 2, 3, 4, 5, 7, 6, 8, 9, 11, 10, 12]"
  "total_patients (sankey_data df) = int (length (rows df))"
  "value_s (sankey_data df) =
     [count_rows (le_mask ''Time_to_PS1_Mins'' 15) df,
      int (length (rows df)) - count_rows (le_mask ''Time_to_PS1_Mins'' 15) df,
      count_rows (\<lambda>r. eq_mask ''First Pain Score'' ''Sev Pain'' r \<and> le_mask ''Time_to_PS1_Mins'' 15 r) df,
      count_rows (\<lambda>r. eq_mask ''First Pain Score'' ''Mod Pain'' r \<and> le_mask ''Time_to_PS1_Mins'' 15 r) df,
      count_rows (\<lambda>r. eq_mask ''First Pain Score'' ''Sev Pain'' r \<and> le_mask ''Time_to_PS1_Mins'' 15 r \<and>
                      le_mask ''Time_to_A1_Mins'' 15 r) df,
      count_rows (\<lambda>r. eq_mask ''First Pain Score'' ''Sev Pain'' r \<and> le_mask ''Time_to_PS1_Mins'' 15 r) df -
      count_rows (\<lambda>r. eq_mask ''First Pain Score'' ''Sev Pain'' r \<and> le_mask ''Time_to_PS1_Mins'' 15 r \<and>
                      le_mask ''Time_to_A1_Mins'' 15 r) df,
      count_rows (\<lambda>r. eq_mask ''First Pain Score'' ''Mod Pain'' r \<and> le_mask ''Time_to_PS1_Mins'' 15 r \<and>
                      le_mask ''Time_to_A1_Mins'' 15 r) df,
      count_rows (\<lambda>r. eq_mask ''First Pain Score'' ''Mod Pain'' r \<and> le_mask ''Time_to_PS1_Mins'' 15 r) df -
      count_rows (\<lambda>r. eq_mask ''First Pain Score'' ''Mod Pain'' r \<and> le_mask ''Time_to_PS1_Mins'' 15 r \<and>
                      le_mask ''Time_to_A1_Mins'' 15 r) df,
      count_rows (\<lambda>r. eq_mask ''First Pain Score'' ''Sev Pain'' r \<and> eq_mask ''Best_Practice'' ''Yes'' r) df,
      count_rows (\<lambda>r. eq_mask ''First Pain Score'' ''Sev Pain'' r \<and> le_mask ''Time_to_PS1_Mins'' 15 r \<and>
                      le_mask ''Time_to_A1_Mins'' 15 r) df -
      count_rows (\<lambda>r. eq_mask ''First Pain Score'' ''Sev Pain'' r \<and> eq_mask ''Best_Practice'' ''Yes'' r) df,
      count_rows (\<lambda>r. eq_mask ''First Pain Score'' ''Mod Pain'' r \<and> eq_mask ''Best_Practice'' ''Yes'' r) df,
      count_rows (\<lambda>r. eq_mask ''First Pain Score'' ''Mod Pain'' r \<and> le_mask ''Time_to_PS1_Mins'' 15 r \<and>
                      le_mask ''Time_to_A1_Mins'' 15 r) df -
      count_rows (\<lambda>r. eq_mask ''First Pain Score'' ''Mod Pain'' r \<and> eq_mask ''Best_Practice'' ''Yes'' r) df]"
  by (simp_all add: sankey_data_def Let_def)

lemma labels_sankey_data:
  "labels (sankey_data df) =
     map2 label node_names (map (node_count (sankey_data df)) [0..<13])"
proof -
  have up: "[0..<13] = [0, 1, 2, 3, 4, 5, 6, 7, 8, 9, 10, 11, 12::nat]"
    by (simp add: upt_rec)
  show ?thesis
    unfolding up node_names_def
    by (simp add: node_count_def sankey_data_fields) (simp add: sankey_data_def Let_def)
qed

lemma masks_update:
  "c \<noteq> k \<Longrightarrow> le_mask c x (AList.update k v r) = le_mask c x r"
  "c \<noteq> k \<Longrightarrow> gt_mask c x (AList.update k v r) = gt_mask c x r"
  "c \<noteq> k \<Longrightarrow> eq_mask c t (AList.update k v r) = eq_mask c t r"
  "eq_mask k t (AList.update k v r) \<longleftrightarrow> v = Str t"
  by (simp_all add: le_mask_def gt_mask_def eq_mask_def cell_at_update)

lemma labelled_yes:
  assumes "r \<in> set (rows (setitem ''Best_Practice'' best_practice df))"
    and "eq_mask ''Best_Practice'' ''Yes'' r"
  shows "le_mask ''Time_to_PS1_Mins'' 15 r \<and> le_mask ''Time_to_A1_Mins'' 15 r"
proof -
  from assms(1) obtain r0 where r: "r = AList.update ''Best_Practice'' (best_practice r0) r0"
    by (auto simp: rows_setitem)
  from assms(2) have "best_practice r0 = Str ''Yes''"
    by (simp add: r masks_update)
  then have "le_mask ''Time_to_PS1_Mins'' 15 r0 \<and> le_mask ''Time_to_A1_Mins'' 15 r0"
    by (auto simp: best_practice_def condition_mod_def condition_sev_def split: if_splits)
  then show ?thesis by (simp add: r masks_update)
qed

lemma severities_disjoint:
  "eq_mask ''First Pain Score'' ''Mod Pain'' r \<Longrightarrow> \<not> eq_mask ''First Pain Score'' ''Sev Pain'' r"
  by (simp add: eq_mask_def)


subsection \<open>C2: the funnel\<close>

text \<open>
  Claim C2, as amended. The funnel data returned by \<^verbatim>\<open>calculate_best_practice\<close> has 13
  labelled nodes and 12 edges; every label carries its node's count; every edge value is
  the count of the node it enters, is not negative, and is at most the count of the node
  it leaves (monotonicity). The counts of the children add up to the parent's count at
  the root and at the four severity nodes 3, 4, 5 and 6. At node 1 (first pain score
  within 15 minutes) the two children, severe and moderate, add up to at most the
  parent's count, with equality exactly when every record scored within 15 minutes is in
  moderate or severe pain: records in no or mild pain are counted at node 1 and in
  neither child.
\<close>

theorem funnel_counts:
  assumes "calculate_best_practice df = Inr (df', s)"
  shows "length (labels s) = 13 \<and> length (source s) = 12 \<and> length (target s) = 12 \<and>
    length (value_s s) = 12 \<and>
    labels s = map2 label node_names (map (node_count s) [0..<13]) \<and>
    node_count s 0 = int (length (rows df)) \<and>
    (\<forall>e \<in> set (zip (source s) (zip (target s) (value_s s))).
       fst e < 13 \<and> fst (snd e) < 13 \<and> node_count s (fst (snd e)) = snd (snd e) \<and>
       0 \<le> snd (snd e) \<and> snd (snd e) \<le> node_count s (fst e)) \<and>
    (\<forall>n \<in> {0, 3, 4, 5, 6}. children_sum s n = node_count s n) \<and>
    children_sum s 1 \<le> node_count s 1 \<and>
    (children_sum s 1 = node_count s 1 \<longleftrightarrow>
       (\<forall>r \<in> set (rows df). le_mask ''Time_to_PS1_Mins'' 15 r \<longrightarrow>
          cell_at r ''First Pain Score'' = Str ''Sev Pain'' \<or>
          cell_at r ''First Pain Score'' = Str ''Mod Pain''))"
proof -
  let ?fps = "''First Pain Score''" and ?ps1 = "''Time_to_PS1_Mins''"
    and ?a1 = "''Time_to_A1_Mins''" and ?bp = "''Best_Practice''"
  have df': "df' = setitem ?bp best_practice df" and s: "s = sankey_data df'"
    using calculate_best_practice_Inr [OF assms] by simp_all
  define T where "T = int (length (rows df'))"
  define p where "p = count_rows (le_mask ?ps1 15) df'"
  define sv where "sv = count_rows (\<lambda>r. eq_mask ?fps ''Sev Pain'' r \<and> le_mask ?ps1 15 r) df'"
  define md where "md = count_rows (\<lambda>r. eq_mask ?fps ''Mod Pain'' r \<and> le_mask ?ps1 15 r) df'"
  define sa where "sa = count_rows (\<lambda>r. eq_mask ?fps ''Sev Pain'' r \<and> le_mask ?ps1 15 r \<and>
      le_mask ?a1 15 r) df'"
  define ma where "ma = count_rows (\<lambda>r. eq_mask ?fps ''Mod Pain'' r \<and> le_mask ?ps1 15 r \<and>
      le_mask ?a1 15 r) df'"
  define sb where "sb = count_rows (\<lambda>r. eq_mask ?fps ''Sev Pain'' r \<and> eq_mask ?bp ''Yes'' r) df'"
  define mb where "mb = count_rows (\<lambda>r. eq_mask ?fps ''Mod Pain'' r \<and> eq_mask ?bp ''Yes'' r) df'"
  define other where "other = count_rows (\<lambda>r. (le_mask ?ps1 15 r \<and> \<not> eq_mask ?fps ''Sev Pain'' r) \<and>
      \<not> eq_mask ?fps ''Mod Pain'' r) df'"
  have vals: "value_s s = [p, T - p, sv, md, sa, sv - sa, ma, md - ma, sb, sa - sb, mb, ma - mb]"
    and src: "source s = [0, 0, 1, 1, 3, 3, 4, 4, 5, 5, 6, 6]"
    and tgt: "target s = [1, 2, 3, 4, 5, 7, 6, 8, 9, 11, 10, 12]"
    and tot: "total_patients s = T"
    unfolding s T_def p_def sv_def md_def sa_def ma_def sb_def mb_def
    by (simp_all add: sankey_data_fields)
  have len: "length (rows df') = length (rows df)"
    by (simp add: df' rows_setitem)
  have nonneg: "0 \<le> p" "0 \<le> sv" "0 \<le> md" "0 \<le> sa" "0 \<le> ma" "0 \<le> sb" "0 \<le> mb" "0 \<le> other"
    unfolding p_def sv_def md_def sa_def ma_def sb_def mb_def other_def
    by (rule count_rows_nonneg)+
  have pT: "p \<le> T"
    unfolding p_def T_def by (rule count_rows_le_length)
  have split1: "p = count_rows (\<lambda>r. le_mask ?ps1 15 r \<and> eq_mask ?fps ''Sev Pain'' r) df' +
      count_rows (\<lambda>r. le_mask ?ps1 15 r \<and> \<not> eq_mask ?fps ''Sev Pain'' r) df'"
    unfolding p_def by (rule count_rows_split)
  have split2: "count_rows (\<lambda>r. le_mask ?ps1 15 r \<and> \<not> eq_mask ?fps ''Sev Pain'' r) df' =
      count_rows (\<lambda>r. (le_mask ?ps1 15 r \<and> \<not> eq_mask ?fps ''Sev Pain'' r) \<and>
        eq_mask ?fps ''Mod Pain'' r) df' + other"
    unfolding other_def by (rule count_rows_split)
  have sv_eq: "count_rows (\<lambda>r. le_mask ?ps1 15 r \<and> eq_mask ?fps ''Sev Pain'' r) df' = sv"
    unfolding sv_def by (simp add: conj_commute)
  have md_eq: "count_rows (\<lambda>r. (le_mask ?ps1 15 r \<and> \<not> eq_mask ?fps ''Sev Pain'' r) \<and>
        eq_mask ?fps ''Mod Pain'' r) df' = md"
    unfolding md_def count_rows_def
    by (rule arg_cong [where f = "\<lambda>xs. int (length xs)"], rule filter_cong)
      (auto dest: severities_disjoint)
  have level2: "p = sv + md + other"
    using split1 split2 sv_eq md_eq by simp
  have below_p: "sv \<le> p" "md \<le> p"
    using level2 nonneg by simp_all
  have sa_sv: "sa \<le> sv" unfolding sa_def sv_def by (rule count_rows_mono) simp
  have ma_md: "ma \<le> md" unfolding ma_def md_def by (rule count_rows_mono) simp
  have sb_sa: "sb \<le> sa"
    unfolding sb_def sa_def
    by (rule count_rows_mono) (use labelled_yes [of _ df] in \<open>auto simp: df'\<close>)
  have mb_ma: "mb \<le> ma"
    unfolding mb_def ma_def
    by (rule count_rows_mono) (use labelled_yes [of _ df] in \<open>auto simp: df'\<close>)
  have other0: "other = 0 \<longleftrightarrow>
      (\<forall>r \<in> set (rows df). le_mask ?ps1 15 r \<longrightarrow>
          cell_at r ?fps = Str ''Sev Pain'' \<or> cell_at r ?fps = Str ''Mod Pain'')"
    unfolding other_def count_rows_zero_iff df' rows_setitem
    by (auto simp: masks_update) (auto simp: eq_mask_def)
  have counts: "node_count s 0 = T" "node_count s 1 = p" "node_count s 2 = T - p"
    "node_count s 3 = sv" "node_count s 4 = md" "node_count s 5 = sa" "node_count s 6 = ma"
    "node_count s 7 = sv - sa" "node_count s 8 = md - ma" "node_count s 9 = sb"
    "node_count s 10 = mb" "node_count s 11 = sa - sb" "node_count s 12 = ma - mb"
    "node_count s (Suc 0) = p"
    by (simp_all add: node_count_def vals tgt tot)
  have kids: "children_sum s 0 = T" "children_sum s 1 = sv + md" "children_sum s 3 = sv"
    "children_sum s 4 = md" "children_sum s 5 = sa" "children_sum s 6 = ma"
    "children_sum s (Suc 0) = sv + md"
    by (simp_all add: children_sum_def vals src)
  have shape: "length (labels s) = 13" "length (source s) = 12" "length (target s) = 12"
    "length (value_s s) = 12"
    by (simp_all add: vals src tgt) (simp add: s sankey_data_def Let_def)
  have lab: "labels s = map2 label node_names (map (node_count s) [0..<13])"
    unfolding s by (rule labels_sankey_data)
  have edges: "\<forall>e \<in> set (zip (source s) (zip (target s) (value_s s))).
       fst e < 13 \<and> fst (snd e) < 13 \<and> node_count s (fst (snd e)) = snd (snd e) \<and>
       0 \<le> snd (snd e) \<and> snd (snd e) \<le> node_count s (fst e)"
    unfolding vals src tgt
    using nonneg pT below_p sa_sv ma_md sb_sa mb_ma by (simp add: counts)
  have adds: "\<forall>n \<in> {0, 3, 4, 5, 6}. children_sum s n = node_count s n"
    by (simp add: counts kids)
  have le1: "children_sum s 1 \<le> node_count s 1"
    using level2 nonneg by (simp add: counts kids)
  have eq1: "children_sum s 1 = node_count s 1 \<longleftrightarrow> other = 0"
    using level2 by (simp add: counts kids)
  show ?thesis
    using shape lab counts(1) edges adds le1 eq1 other0 by (simp add: T_def len)
qed

theorem funnel_counts_witness:
  "calculate_best_practice mild_only = Inr (mild_only_out, sankey_data mild_only_out) \<and>
   length (labels (sankey_data mild_only_out)) = 13 \<and>
   length (value_s (sankey_data mild_only_out)) = 12 \<and>
   node_count (sankey_data mild_only_out) 0 = int (length (rows mild_only)) \<and>
   children_sum (sankey_data mild_only_out) 0 = node_count (sankey_data mild_only_out) 0 \<and>
   children_sum (sankey_data mild_only_out) 3 = node_count (sankey_data mild_only_out) 3 \<and>
   children_sum (sankey_data mild_only_out) 1 \<le> node_count (sankey_data mild_only_out) 1"
proof -
  have run: "calculate_best_practice mild_only = Inr (mild_only_out, sankey_data mild_only_out)"
    by code_simp
  note f = funnel_counts [OF run]
  from f have shape: "length (labels (sankey_data mild_only_out)) = 13"
    "length (value_s (sankey_data mild_only_out)) = 12"
    "node_count (sankey_data mild_only_out) 0 = int (length (rows mild_only))"
    by blast+
  from f have "\<forall>n \<in> {0, 3, 4, 5, 6}.
      children_sum (sankey_data mild_only_out) n = node_count (sankey_data mild_only_out) n"
    by blast
  then have adds: "children_sum (sankey_data mild_only_out) 0 = node_count (sankey_data mild_only_out) 0"
    "children_sum (sankey_data mild_only_out) 3 = node_count (sankey_data mild_only_out) 3"
    by blast+
  from f have "children_sum (sankey_data mild_only_out) 1 \<le> node_count (sankey_data mild_only_out) 1"
    by blast
  with run shape adds show ?thesis
    by blast
qed

text \<open>
  The claim as it was stated fails at node 1: for one patient in mild pain scored within
  15 minutes the node counts 1 and its two children count 0 together.
\<close>

theorem funnel_additivity_counterexample:
  "calculate_best_practice mild_only = Inr (mild_only_out, sankey_data mild_only_out) \<and>
   node_count (sankey_data mild_only_out) 1 = 1 \<and>
   children_sum (sankey_data mild_only_out) 1 = 0"
proof -
  have run: "calculate_best_practice mild_only = Inr (mild_only_out, sankey_data mild_only_out)"
    by code_simp
  have "node_count (sankey_data mild_only_out) 1 = 1"
    by code_simp
  moreover have "children_sum (sankey_data mild_only_out) 1 = 0"
    by code_simp
  ultimately show ?thesis using run by simp
qed

subsection \<open>The left join\<close>


lemma cell_at_filter_keys:
  "cell_at (filter (\<lambda>kv. fst kv \<notin> set cs) r) c = (if c \<in> set cs then Null else cell_at r c)"
  by (induction r) (auto simp: cell_at_def)

lemma map_of_filter_keys:
  "c \<in> set cs \<Longrightarrow> map_of (filter (\<lambda>kv. fst kv \<notin> set cs) r) c = None"
  by (induction r) auto

lemma apply_rows_Inr:
  "apply_rows f c rs = Inr rs' \<longleftrightarrow>
     (\<forall>r \<in> set rs. \<exists>v. f r = Inr v) \<and> rs' = map (\<lambda>r. AList.update c (projr (f r)) r) rs"
proof (induction rs arbitrary: rs')
  case Nil
  show ?case by auto
next
  case (Cons r rs)
  show ?case
  proof (cases "f r")
    case (Inl e)
    then show ?thesis by auto
  next
    case (Inr v)
    show ?thesis
    proof (cases "apply_rows f c rs")
      case (Inl e)
      with Cons.IH [of "map (\<lambda>r. AList.update c (projr (f r)) r) rs"] Inr show ?thesis
        by auto
    next
      case right: (Inr rs0)
      with Cons.IH [of rs0] Inr show ?thesis
        by auto
    qed
  qed
qed

lemma merge_with_imd_data_Some:
  assumes "merge_with_imd_data df (Some imd) = Inr out" and "\<not> is_empty imd"
  shows "rows out = map finish (concat (map (left_merge_row (rows imd)) (rows df)))"
    and "\<forall>r \<in> set (concat (map (left_merge_row (rows imd)) (rows df))).
           \<exists>v. map_quintile (cell_at r ''IMD_Decile'') = Inr v"
    and "columns out =
           filter (\<lambda>c. c \<notin> set [''Postcode'', ''Join_Key'', ''Postcode_Gov''])
             (if ''IMD_Quintile'' \<in> set (columns df) then columns df @ [''IMD_Decile'']
              else columns df @ [''IMD_Decile'', ''IMD_Quintile''])"
    and "''Join_Key'' \<in> set (columns df)" and "''IMD_Decile'' \<notin> set (columns df)"
    and "''Join_Key'' \<in> set (columns imd)" and "''IMD_Decile'' \<in> set (columns imd)"
proof -
  let ?ms = "concat (map (left_merge_row (rows imd)) (rows df))"
  from assms have checks: "''Join_Key'' \<in> set (columns imd)" "''IMD_Decile'' \<in> set (columns imd)"
    "''Join_Key'' \<in> set (columns df)" "''IMD_Decile'' \<notin> set (columns df)"
    by (auto simp: merge_with_imd_data_def need_column_def split: if_splits option.splits)
  with assms obtain rs where
    ap: "apply_rows (\<lambda>r. map_quintile (cell_at r ''IMD_Decile'')) ''IMD_Quintile'' ?ms = Inr rs"
    and out: "out = drop_columns [''Postcode'', ''Join_Key'', ''Postcode_Gov'']
        \<lparr>columns = (if ''IMD_Quintile'' \<in> set (columns (merge_left df imd))
                     then columns (merge_left df imd)
                     else columns (merge_left df imd) @ [''IMD_Quintile'']),
         rows = rs\<rparr>"
    by (auto simp: merge_with_imd_data_def need_column_def Let_def merge_left_def
        split: if_splits sum.splits)
  from ap have rs: "rs = map (\<lambda>r. AList.update ''IMD_Quintile''
        (projr (map_quintile (cell_at r ''IMD_Decile''))) r) ?ms"
    and ok: "\<forall>r \<in> set ?ms. \<exists>v. map_quintile (cell_at r ''IMD_Decile'') = Inr v"
    unfolding apply_rows_Inr by blast+
  show "rows out = map finish ?ms"
    by (simp add: out rs drop_columns_def finish_def)
  show "\<forall>r \<in> set ?ms. \<exists>v. map_quintile (cell_at r ''IMD_Decile'') = Inr v"
    by (rule ok)
  show "columns out =
           filter (\<lambda>c. c \<notin> set [''Postcode'', ''Join_Key'', ''Postcode_Gov''])
             (if ''IMD_Quintile'' \<in> set (columns df) then columns df @ [''IMD_Decile'']
              else columns df @ [''IMD_Decile'', ''IMD_Quintile''])"
    by (simp add: out drop_columns_def merge_left_def)
  show "''Join_Key'' \<in> set (columns df)" "''IMD_Decile'' \<notin> set (columns df)"
    "''Join_Key'' \<in> set (columns imd)" "''IMD_Decile'' \<in> set (columns imd)"
    using checks by simp_all
qed

lemma merge_with_imd_data_unavailable:
  assumes "merge_with_imd_data df imd_df = Inr out"
    and "imd_df = None \<or> (\<exists>imd. imd_df = Some imd \<and> is_empty imd)"
  shows "out = setitem ''IMD_Quintile'' (\<lambda>r. Str ''Unknown'') df"
  using assms by (auto simp: merge_with_imd_data_def)

lemma length_left_merge_row:
  "length (left_merge_row right l) = max 1 (length (matches right l))"
  by (simp add: left_merge_row_def split: list.splits)

lemma finish_cells:
  "cell_at (finish r) ''IMD_Quintile'' = projr (map_quintile (cell_at r ''IMD_Decile''))"
  "cell_at (finish r) ''IMD_Decile'' = cell_at r ''IMD_Decile''"
  "c \<notin> {''Postcode'', ''Join_Key'', ''Postcode_Gov'', ''IMD_Quintile''} \<Longrightarrow>
     cell_at (finish r) c = cell_at r c"
  unfolding finish_def cell_at_filter_keys by (simp_all add: cell_at_update)

lemma finish_dropped:
  "map_of (finish r) ''Postcode'' = None" "map_of (finish r) ''Join_Key'' = None"
  unfolding finish_def by (rule map_of_filter_keys, simp)+

lemma length_concat_map: "length (concat (map f xs)) = sum_list (map (\<lambda>x. length (f x)) xs)"
  by (induction xs) auto

lemma matches_distinct:
  assumes "distinct (map (\<lambda>e. cell_at e ''Join_Key'') right)"
  shows "matches right l = (case find (\<lambda>e. cell_at e ''Join_Key'' = cell_at l ''Join_Key'') right of
            None \<Rightarrow> [] | Some e \<Rightarrow> [e])"
  using assms unfolding matches_def
proof (induction right)
  case Nil
  show ?case by simp
next
  case (Cons e es)
  show ?case
  proof (cases "cell_at e ''Join_Key'' = cell_at l ''Join_Key''")
    case True
    with Cons.prems have "\<forall>x \<in> set es. cell_at x ''Join_Key'' \<noteq> cell_at l ''Join_Key''"
      by (force simp: image_iff)
    then have "filter (\<lambda>e. cell_at e ''Join_Key'' = cell_at l ''Join_Key'') es = []"
      by (simp add: filter_empty_conv)
    with True show ?thesis by simp
  next
    case False
    with Cons show ?thesis by simp
  qed
qed


lemma left_merge_row_distinct:
  assumes "distinct (map (\<lambda>e. cell_at e ''Join_Key'') right)"
  shows "left_merge_row right l =
     [AList.update ''IMD_Decile''
        (case find (\<lambda>e. cell_at e ''Join_Key'' = cell_at l ''Join_Key'') right of
           None \<Rightarrow> Null | Some e \<Rightarrow> cell_at e ''IMD_Decile'') l]"
  by (simp add: left_merge_row_def matches_distinct [OF assms] split: option.splits)

lemma concat_map_single: "concat (map (\<lambda>x. [f x]) xs) = map f xs"
  by (induction xs) auto


subsection \<open>Loading the reference data\<close>


lemma cell_at_rename:
  assumes "inj_on f (insert k (fst ` set r))"
  shows "cell_at (map (\<lambda>kv. (f (fst kv), snd kv)) r) (f k) = cell_at r k"
  using assms
proof (induction r)
  case Nil
  show ?case by (simp add: cell_at_def)
next
  case (Cons a r)
  from Cons.prems have inj: "inj_on f (insert k (fst ` set r))"
    by (auto simp: inj_on_def)
  from Cons.prems have "f (fst a) = f k \<longleftrightarrow> fst a = k"
    by (auto simp: inj_on_def)
  with Cons.IH [OF inj] show ?case
    by (cases a) (auto simp: cell_at_def)
qed

lemma inj_on_imd_rename: "inj_on imd_rename (set IMD_COLS)"
  by (simp add: IMD_COLS_def imd_rename_def IMD_Decile_header_def)

lemma imd_rename_simps:
  "imd_rename ''Postcode'' = ''Postcode_Gov''" "imd_rename IMD_Decile_header = ''IMD_Decile''"
  by (simp_all add: imd_rename_def IMD_Decile_header_def)

lemma count_list_distinct: "distinct xs \<Longrightarrow> count_list xs x \<le> 1"
  by (induction xs) auto

lemma load_imd_data_ok:
  assumes "distinct (columns ref)" and "set (columns ref) = set IMD_COLS"
  shows "rows (fst (load_imd_data pd (Inr ref))) = map (reference_row pd) (rows ref)"
    and "''Join_Key'' \<in> set (columns (fst (load_imd_data pd (Inr ref))))"
    and "''IMD_Decile'' \<in> set (columns (fst (load_imd_data pd (Inr ref))))"
    and "is_empty (fst (load_imd_data pd (Inr ref))) \<longleftrightarrow> rows ref = []"
proof -
  have mem: "''Postcode'' \<in> set (columns ref)" "IMD_Decile_header \<in> set (columns ref)"
    by (simp_all add: assms(2) IMD_COLS_def)
  have pg: "''Postcode_Gov'' \<in> set (columns (rename_columns imd_rename ref))"
    and dec: "''IMD_Decile'' \<in> set (columns (rename_columns imd_rename ref))"
    using mem imd_rename_simps by (force simp: rename_columns_def)+
  have "distinct (map imd_rename (columns ref))"
    using assms inj_on_imd_rename by (simp add: distinct_map)
  then have once: "\<not> 1 < count_list (columns (rename_columns imd_rename ref)) ''Postcode_Gov''"
    using count_list_distinct [of "map imd_rename (columns ref)" "''Postcode_Gov''"]
    by (simp add: rename_columns_def)
  have imd: "fst (load_imd_data pd (Inr ref)) =
      setitem ''Join_Key'' (\<lambda>r. join_key pd (cell_at r ''Postcode_Gov''))
        (rename_columns imd_rename ref)"
    using pg once by (simp add: load_imd_data_def Let_def)
  show "rows (fst (load_imd_data pd (Inr ref))) = map (reference_row pd) (rows ref)"
    by (simp add: imd setitem_def rename_columns_def reference_row_def o_def)
  show "''Join_Key'' \<in> set (columns (fst (load_imd_data pd (Inr ref))))"
    by (simp add: imd setitem_def)
  show "''IMD_Decile'' \<in> set (columns (fst (load_imd_data pd (Inr ref))))"
    using dec by (simp add: imd setitem_def)
  show "is_empty (fst (load_imd_data pd (Inr ref))) \<longleftrightarrow> rows ref = []"
    using pg by (auto simp: imd is_empty_def setitem_def rename_columns_def)
qed

lemma reference_row_cells:
  assumes "fst ` set e \<subseteq> set IMD_COLS"
  shows "cell_at (reference_row pd e) ''Join_Key'' = join_key pd (cell_at e ''Postcode'')"
    and "cell_at (reference_row pd e) ''IMD_Decile'' = cell_at e IMD_Decile_header"
proof -
  have inj: "inj_on imd_rename (insert k (fst ` set e))" if "k \<in> set IMD_COLS" for k
    using assms that by (intro inj_on_subset [OF inj_on_imd_rename]) auto
  have p: "cell_at (map (\<lambda>kv. (imd_rename (fst kv), snd kv)) e) ''Postcode_Gov'' =
      cell_at e ''Postcode''"
    using cell_at_rename [OF inj [of "''Postcode''"]] by (simp add: imd_rename_simps IMD_COLS_def)
  have d: "cell_at (map (\<lambda>kv. (imd_rename (fst kv), snd kv)) e) ''IMD_Decile'' =
      cell_at e IMD_Decile_header"
    using cell_at_rename [OF inj [of IMD_Decile_header]] by (simp add: imd_rename_simps IMD_COLS_def)
  show "cell_at (reference_row pd e) ''Join_Key'' = join_key pd (cell_at e ''Postcode'')"
    by (simp add: reference_row_def cell_at_update p)
  show "cell_at (reference_row pd e) ''IMD_Decile'' = cell_at e IMD_Decile_header"
    by (simp add: reference_row_def cell_at_update d)
qed

lemma set_matches:
  "set (matches right l) = {m \<in> set right. cell_at m ''Join_Key'' = cell_at l ''Join_Key''}"
  by (auto simp: matches_def)

lemma in_left_merge_row:
  "r \<in> set (left_merge_row right l) \<longleftrightarrow>
     (matches right l = [] \<and> r = AList.update ''IMD_Decile'' Null l) \<or>
     (\<exists>m \<in> set (matches right l). r = AList.update ''IMD_Decile'' (cell_at m ''IMD_Decile'') l)"
  by (cases "matches right l") (auto simp: left_merge_row_def)

lemma left_merge_row_nonempty: "left_merge_row right l \<noteq> []"
  by (simp add: left_merge_row_def split: list.splits)

lemma map_quintile_numeric:
  "is_numeric d \<Longrightarrow> map_quintile d = Inr (projr (map_quintile d))"
  by (cases d) (simp_all add: is_numeric_def map_quintile_def)

lemma merge_with_imd_data_total:
  assumes "\<not> is_empty imd" and "''Join_Key'' \<in> set (columns imd)"
    and "''IMD_Decile'' \<in> set (columns imd)" and "''Join_Key'' \<in> set (columns df)"
    and "''IMD_Decile'' \<notin> set (columns df)"
    and "\<forall>m \<in> set (rows imd). is_numeric (cell_at m ''IMD_Decile'')"
  shows "\<exists>out. merge_with_imd_data df (Some imd) = Inr out"
proof -
  let ?ms = "concat (map (left_merge_row (rows imd)) (rows df))"
  have "is_numeric (cell_at r ''IMD_Decile'')" if "r \<in> set ?ms" for r
  proof -
    from that obtain l where "r \<in> set (left_merge_row (rows imd) l)"
      by auto
    then show ?thesis
      using assms(6) unfolding in_left_merge_row set_matches
      by (auto simp: cell_at_update is_numeric_def)
  qed
  then have "\<forall>r \<in> set ?ms. \<exists>v. map_quintile (cell_at r ''IMD_Decile'') = Inr v"
    using map_quintile_numeric by blast
  then have "apply_rows (\<lambda>r. map_quintile (cell_at r ''IMD_Decile'')) ''IMD_Quintile'' ?ms =
      Inr (map (\<lambda>r. AList.update ''IMD_Quintile''
        (projr (map_quintile (cell_at r ''IMD_Decile''))) r) ?ms)"
    unfolding apply_rows_Inr by simp
  then show ?thesis
    using assms(1-5)
    by (simp add: merge_with_imd_data_def need_column_def Let_def merge_left_def)
qed

subsection \<open>Quintiles of the enriched rows\<close>


lemma map_quintile_bands:
  "map_quintile Null = Inr (Str ''Unknown'')"
  "d \<le> 2 \<Longrightarrow> map_quintile (Num d) = Inr (Str ''1 - Most Deprived'')"
  "2 < d \<Longrightarrow> d \<le> 4 \<Longrightarrow> map_quintile (Num d) = Inr (Str ''2'')"
  "4 < d \<Longrightarrow> d \<le> 6 \<Longrightarrow> map_quintile (Num d) = Inr (Str ''3'')"
  "6 < d \<Longrightarrow> d \<le> 8 \<Longrightarrow> map_quintile (Num d) = Inr (Str ''4'')"
  "8 < d \<Longrightarrow> map_quintile (Num d) = Inr (Str ''5 - Least Deprived'')"
  "map_quintile (Num d) \<noteq> Inr (Str ''Unknown'')"
  by (simp_all add: map_quintile_def)

lemma create_join_keys_ok:
  assumes "''Postcode'' \<in> set (columns df)" and "distinct (columns df)"
  shows "create_join_keys pd df =
      Inr (setitem ''Join_Key'' (\<lambda>r. join_key pd (cell_at r ''Postcode'')) df)"
  using assms count_list_distinct [of "columns df" "''Postcode''"]
  by (simp add: create_join_keys_def)

lemma enriched_blocks:
  assumes out: "merge_with_imd_data df1 (Some imd) = Inr out" and ne: "\<not> is_empty imd"
    and num: "\<forall>m \<in> set (rows imd). is_numeric (cell_at m ''IMD_Decile'')"
  defines "blocks \<equiv> map (\<lambda>l. map finish (left_merge_row (rows imd) l)) (rows df1)"
  shows "rows out = concat blocks" and "length blocks = length (rows df1)"
    and "\<And>i. i < length (rows df1) \<Longrightarrow> blocks ! i \<noteq> []"
    and "\<And>i r. i < length (rows df1) \<Longrightarrow> r \<in> set (blocks ! i) \<Longrightarrow>
          (\<forall>c. c \<notin> {''Postcode'', ''Join_Key'', ''Postcode_Gov'', ''IMD_Decile'', ''IMD_Quintile''} \<longrightarrow>
             cell_at r c = cell_at (rows df1 ! i) c) \<and>
          map_quintile (cell_at r ''IMD_Decile'') = Inr (cell_at r ''IMD_Quintile'') \<and>
          ((matches (rows imd) (rows df1 ! i) = [] \<and> cell_at r ''IMD_Decile'' = Null) \<or>
           (\<exists>m \<in> set (matches (rows imd) (rows df1 ! i)).
              cell_at r ''IMD_Decile'' = cell_at m ''IMD_Decile''))"
    and "\<And>i m. i < length (rows df1) \<Longrightarrow> m \<in> set (matches (rows imd) (rows df1 ! i)) \<Longrightarrow>
          \<exists>r \<in> set (blocks ! i). cell_at r ''IMD_Decile'' = cell_at m ''IMD_Decile''"
proof -
  show "rows out = concat blocks"
    unfolding blocks_def merge_with_imd_data_Some(1) [OF out ne]
    by (simp add: map_concat o_def)
  show "length blocks = length (rows df1)"
    by (simp add: blocks_def)
  show "blocks ! i \<noteq> []" if "i < length (rows df1)" for i
    using that by (simp add: blocks_def left_merge_row_nonempty)
  show "(\<forall>c. c \<notin> {''Postcode'', ''Join_Key'', ''Postcode_Gov'', ''IMD_Decile'', ''IMD_Quintile''} \<longrightarrow>
             cell_at r c = cell_at (rows df1 ! i) c) \<and>
          map_quintile (cell_at r ''IMD_Decile'') = Inr (cell_at r ''IMD_Quintile'') \<and>
          ((matches (rows imd) (rows df1 ! i) = [] \<and> cell_at r ''IMD_Decile'' = Null) \<or>
           (\<exists>m \<in> set (matches (rows imd) (rows df1 ! i)).
              cell_at r ''IMD_Decile'' = cell_at m ''IMD_Decile''))"
    if i: "i < length (rows df1)" and r: "r \<in> set (blocks ! i)" for i r
  proof -
    let ?l = "rows df1 ! i"
    from i r obtain r0 where r0: "r0 \<in> set (left_merge_row (rows imd) ?l)" and rf: "r = finish r0"
      by (auto simp: blocks_def)
    from r0 obtain d where upd: "r0 = AList.update ''IMD_Decile'' d ?l"
      and d: "(matches (rows imd) ?l = [] \<and> d = Null) \<or>
          (\<exists>m \<in> set (matches (rows imd) ?l). d = cell_at m ''IMD_Decile'')"
      unfolding in_left_merge_row by blast
    have dec: "cell_at r ''IMD_Decile'' = d"
      by (simp add: rf upd finish_cells cell_at_update)
    from d num have "is_numeric d"
      by (auto simp: set_matches is_numeric_def)
    then have q: "map_quintile d = Inr (cell_at r ''IMD_Quintile'')"
      using map_quintile_numeric [of d] by (simp add: rf upd finish_cells cell_at_update)
    have other: "cell_at r c = cell_at ?l c"
      if "c \<notin> {''Postcode'', ''Join_Key'', ''Postcode_Gov'', ''IMD_Decile'', ''IMD_Quintile''}" for c
      using that by (simp add: rf upd finish_cells cell_at_update)
    from other q d show ?thesis
      unfolding dec by blast
  qed
  show "\<exists>r \<in> set (blocks ! i). cell_at r ''IMD_Decile'' = cell_at m ''IMD_Decile''"
    if i: "i < length (rows df1)" and m: "m \<in> set (matches (rows imd) (rows df1 ! i))" for i m
  proof -
    let ?r0 = "AList.update ''IMD_Decile'' (cell_at m ''IMD_Decile'') (rows df1 ! i)"
    from m have "?r0 \<in> set (left_merge_row (rows imd) (rows df1 ! i))"
      unfolding in_left_merge_row by blast
    then have "finish ?r0 \<in> set (blocks ! i)"
      using i by (simp add: blocks_def)
    moreover have "cell_at (finish ?r0) ''IMD_Decile'' = cell_at m ''IMD_Decile''"
      by (simp add: finish_cells cell_at_update)
    ultimately show ?thesis by blast
  qed
qed

subsection \<open>The join key is the normalised postcode\<close>

lemma lower_letters_codes: "map char_of [97..<123::nat] = lower_letters"
  by code_simp

lemma upper_char_letters: "map upper_char lower_letters = upper_letters"
  by code_simp

lemma distinct_lower_letters: "distinct lower_letters"
  by code_simp

lemma length_letters: "length lower_letters = 26" "length upper_letters = 26"
  by (simp_all add: lower_letters_def upper_letters_def)

lemma in_lower_letters: "c \<in> set lower_letters \<longleftrightarrow> 97 \<le> (of_char c :: nat) \<and> (of_char c :: nat) \<le> 122"
proof
  assume "c \<in> set lower_letters"
  then have "c \<in> char_of ` {97..<123::nat}"
    unfolding lower_letters_codes [symmetric] by (simp only: set_map set_upt)
  then obtain n :: nat where n: "97 \<le> n" "n < 123" and c: "c = char_of n"
    by auto
  from n have "n mod 256 = n"
    by simp
  then show "97 \<le> (of_char c :: nat) \<and> (of_char c :: nat) \<le> 122"
    using n by (simp add: c)
next
  assume "97 \<le> (of_char c :: nat) \<and> (of_char c :: nat) \<le> 122"
  then have "(of_char c :: nat) \<in> {97..<123}"
    by simp
  then have "char_of (of_char c :: nat) \<in> char_of ` {97..<123::nat}"
    by (rule imageI)
  then have "c \<in> set (map char_of [97..<123::nat])"
    by (simp only: set_map set_upt char_of_char)
  then show "c \<in> set lower_letters"
    by (simp only: lower_letters_codes)
qed

lemma upper_char_ascii_upper: "upper_char c = ascii_upper c"
proof (cases "c \<in> set lower_letters")
  case True
  then obtain i where i: "i < length lower_letters" "c = lower_letters ! i"
    by (auto simp: in_set_conv_nth)
  have "map_of (zip lower_letters upper_letters) (lower_letters ! i) = Some (upper_letters ! i)"
    using i(1) distinct_lower_letters by (intro map_of_zip_nth) (simp_all add: length_letters)
  moreover have "upper_char (lower_letters ! i) = upper_letters ! i"
    using i(1) nth_map [of i lower_letters upper_char] by (simp add: upper_char_letters)
  ultimately show ?thesis
    by (simp add: ascii_upper_def i(2))
next
  case False
  then have "map_of (zip lower_letters upper_letters) c = None"
    by (simp add: map_of_zip_is_None length_letters)
  moreover from False have "upper_char c = c"
    unfolding in_lower_letters by (auto simp: upper_char_def Let_def)
  ultimately show ?thesis
    by (simp add: ascii_upper_def)
qed

lemma join_key_normalized:
  "join_key pd v = Str (normalized_postcode (str_of_cell pd v))"
proof -
  have "upper_char = ascii_upper"
    by (rule ext) (rule upper_char_ascii_upper)
  then show ?thesis
    by (simp add: join_key_def remove_spaces_def str_upper_def normalized_postcode_def)
qed

subsection \<open>The round trip, by join keys\<close>

lemma round_trip_by_join_key:
  assumes pc: "''Postcode'' \<in> set (columns df)" and dc: "distinct (columns df)"
    and nd: "''IMD_Decile'' \<notin> set (columns df)"
    and rd: "distinct (columns ref)" and rs: "set (columns ref) = set IMD_COLS"
    and rk: "\<forall>e \<in> set (rows ref). fst ` set e \<subseteq> set IMD_COLS"
    and rn: "\<forall>e \<in> set (rows ref). is_numeric (cell_at e IMD_Decile_header)"
  shows "map_quintile Null = Inr (Str ''Unknown'') \<and>
    (\<forall>d. (d \<le> 2 \<longrightarrow> map_quintile (Num d) = Inr (Str ''1 - Most Deprived'')) \<and>
         (2 < d \<and> d \<le> 4 \<longrightarrow> map_quintile (Num d) = Inr (Str ''2'')) \<and>
         (4 < d \<and> d \<le> 6 \<longrightarrow> map_quintile (Num d) = Inr (Str ''3'')) \<and>
         (6 < d \<and> d \<le> 8 \<longrightarrow> map_quintile (Num d) = Inr (Str ''4'')) \<and>
         (8 < d \<longrightarrow> map_quintile (Num d) = Inr (Str ''5 - Least Deprived''))) \<and>
    (\<exists>df1 out blocks.
       create_join_keys pd df = Inr df1 \<and>
       merge_with_imd_data df1 (Some (fst (load_imd_data pd (Inr ref)))) = Inr out \<and>
       rows out = concat blocks \<and> length blocks = length (rows df) \<and>
       (\<forall>i < length (rows df).
          blocks ! i \<noteq> [] \<and>
          (\<forall>r \<in> set (blocks ! i).
             (\<forall>c. c \<notin> {''Postcode'', ''Join_Key'', ''Postcode_Gov'', ''IMD_Decile'', ''IMD_Quintile''} \<longrightarrow>
                cell_at r c = cell_at (rows df ! i) c) \<and>
             (if \<exists>e \<in> set (rows ref).
                   join_key pd (cell_at e ''Postcode'') = join_key pd (cell_at (rows df ! i) ''Postcode'')
              then \<exists>e \<in> set (rows ref).
                     join_key pd (cell_at e ''Postcode'') =
                       join_key pd (cell_at (rows df ! i) ''Postcode'') \<and>
                     map_quintile (cell_at e IMD_Decile_header) = Inr (cell_at r ''IMD_Quintile'') \<and>
                     (cell_at e IMD_Decile_header \<noteq> Null \<longrightarrow>
                        cell_at r ''IMD_Quintile'' \<noteq> Str ''Unknown'')
              else cell_at r ''IMD_Quintile'' = Str ''Unknown'')) \<and>
          (\<forall>e \<in> set (rows ref).
             join_key pd (cell_at e ''Postcode'') = join_key pd (cell_at (rows df ! i) ''Postcode'') \<longrightarrow>
             (\<exists>r \<in> set (blocks ! i).
                map_quintile (cell_at e IMD_Decile_header) = Inr (cell_at r ''IMD_Quintile'')))))"
proof -
  let ?imd = "fst (load_imd_data pd (Inr ref))"
  let ?df1 = "setitem ''Join_Key'' (\<lambda>r. join_key pd (cell_at r ''Postcode'')) df"
  let ?key = "\<lambda>x. join_key pd (cell_at x ''Postcode'')"
  let ?scaf = "{''Postcode'', ''Join_Key'', ''Postcode_Gov'', ''IMD_Decile'', ''IMD_Quintile''}"
  note imd = load_imd_data_ok [OF rd rs, of pd]
  have cjk: "create_join_keys pd df = Inr ?df1"
    by (rule create_join_keys_ok [OF pc dc])
  have len1: "length (rows ?df1) = length (rows df)"
    by (simp add: length_rows_setitem)
  have row1: "rows ?df1 ! i = AList.update ''Join_Key'' (?key (rows df ! i)) (rows df ! i)"
    if "i < length (rows df)" for i
    using that by (simp add: row_setitem)
  have cols1: "''Join_Key'' \<in> set (columns ?df1)" "''IMD_Decile'' \<notin> set (columns ?df1)"
    using nd by (auto simp: setitem_def)
  have not_unknown: "q \<noteq> Str ''Unknown''" if "map_quintile v = Inr q" "is_numeric v" "v \<noteq> Null" for v q
    using that by (cases v) (auto simp: map_quintile_bands(7) is_numeric_def)
  have bands: "map_quintile Null = Inr (Str ''Unknown'') \<and>
    (\<forall>d. (d \<le> 2 \<longrightarrow> map_quintile (Num d) = Inr (Str ''1 - Most Deprived'')) \<and>
         (2 < d \<and> d \<le> 4 \<longrightarrow> map_quintile (Num d) = Inr (Str ''2'')) \<and>
         (4 < d \<and> d \<le> 6 \<longrightarrow> map_quintile (Num d) = Inr (Str ''3'')) \<and>
         (6 < d \<and> d \<le> 8 \<longrightarrow> map_quintile (Num d) = Inr (Str ''4'')) \<and>
         (8 < d \<longrightarrow> map_quintile (Num d) = Inr (Str ''5 - Least Deprived'')))"
    by (simp add: map_quintile_bands)
  have trip: "\<exists>df1 out blocks.
       create_join_keys pd df = Inr df1 \<and>
       merge_with_imd_data df1 (Some ?imd) = Inr out \<and>
       rows out = concat blocks \<and> length blocks = length (rows df) \<and>
       (\<forall>i < length (rows df).
          blocks ! i \<noteq> [] \<and>
          (\<forall>r \<in> set (blocks ! i).
             (\<forall>c. c \<notin> ?scaf \<longrightarrow> cell_at r c = cell_at (rows df ! i) c) \<and>
             (if \<exists>e \<in> set (rows ref). ?key e = ?key (rows df ! i)
              then \<exists>e \<in> set (rows ref). ?key e = ?key (rows df ! i) \<and>
                     map_quintile (cell_at e IMD_Decile_header) = Inr (cell_at r ''IMD_Quintile'') \<and>
                     (cell_at e IMD_Decile_header \<noteq> Null \<longrightarrow>
                        cell_at r ''IMD_Quintile'' \<noteq> Str ''Unknown'')
              else cell_at r ''IMD_Quintile'' = Str ''Unknown'')) \<and>
          (\<forall>e \<in> set (rows ref). ?key e = ?key (rows df ! i) \<longrightarrow>
             (\<exists>r \<in> set (blocks ! i).
                map_quintile (cell_at e IMD_Decile_header) = Inr (cell_at r ''IMD_Quintile''))))"
  proof (cases "rows ref = []")
    case True
    then have emp: "is_empty ?imd"
      using imd(4) by simp
    let ?out = "setitem ''IMD_Quintile'' (\<lambda>r. Str ''Unknown'') ?df1"
    let ?blocks = "map (\<lambda>l. [AList.update ''IMD_Quintile'' (Str ''Unknown'') l]) (rows ?df1)"
    have run: "merge_with_imd_data ?df1 (Some ?imd) = Inr ?out"
      using emp by (simp add: merge_with_imd_data_def)
    have cat: "rows ?out = concat ?blocks"
      by (simp only: rows_setitem concat_map_single)
    have "length ?blocks = length (rows df)"
      by (simp add: len1)
    moreover have "?blocks ! i \<noteq> [] \<and>
          (\<forall>r \<in> set (?blocks ! i).
             (\<forall>c. c \<notin> ?scaf \<longrightarrow> cell_at r c = cell_at (rows df ! i) c) \<and>
             cell_at r ''IMD_Quintile'' = Str ''Unknown'')"
      if "i < length (rows df)" for i
      using that by (simp add: len1 row1 cell_at_update)
    ultimately show ?thesis
      using cjk run cat True
      by (intro exI [of _ ?df1] exI [of _ ?out] exI [of _ ?blocks]) simp
  next
    case False
    then have ne: "\<not> is_empty ?imd"
      using imd(4) by simp
    have ref_rows: "rows ?imd = map (reference_row pd) (rows ref)"
      by (rule imd(1))
    have num: "\<forall>m \<in> set (rows ?imd). is_numeric (cell_at m ''IMD_Decile'')"
      using rn rk by (auto simp: ref_rows reference_row_cells)
    obtain out where run: "merge_with_imd_data ?df1 (Some ?imd) = Inr out"
      using merge_with_imd_data_total [OF ne imd(2,3) cols1 num] by blast
    define blocks where "blocks = map (\<lambda>l. map finish (left_merge_row (rows ?imd) l)) (rows ?df1)"
    note eb = enriched_blocks [OF run ne num, folded blocks_def]
    have key1: "cell_at (rows ?df1 ! i) ''Join_Key'' = ?key (rows df ! i)"
      if "i < length (rows df)" for i
      using that by (simp add: row1 cell_at_update)
    have in_matches: "m \<in> set (matches (rows ?imd) (rows ?df1 ! i)) \<longleftrightarrow>
        (\<exists>e \<in> set (rows ref). m = reference_row pd e \<and> ?key e = ?key (rows df ! i))"
      if "i < length (rows df)" for i m
      using rk by (auto simp: set_matches ref_rows key1 [OF that] reference_row_cells)
    have block: "blocks ! i \<noteq> [] \<and>
          (\<forall>r \<in> set (blocks ! i).
             (\<forall>c. c \<notin> ?scaf \<longrightarrow> cell_at r c = cell_at (rows df ! i) c) \<and>
             (if \<exists>e \<in> set (rows ref). ?key e = ?key (rows df ! i)
              then \<exists>e \<in> set (rows ref). ?key e = ?key (rows df ! i) \<and>
                     map_quintile (cell_at e IMD_Decile_header) = Inr (cell_at r ''IMD_Quintile'') \<and>
                     (cell_at e IMD_Decile_header \<noteq> Null \<longrightarrow>
                        cell_at r ''IMD_Quintile'' \<noteq> Str ''Unknown'')
              else cell_at r ''IMD_Quintile'' = Str ''Unknown'')) \<and>
          (\<forall>e \<in> set (rows ref). ?key e = ?key (rows df ! i) \<longrightarrow>
             (\<exists>r \<in> set (blocks ! i).
                map_quintile (cell_at e IMD_Decile_header) = Inr (cell_at r ''IMD_Quintile'')))"
      if i: "i < length (rows df)" for i
    proof -
      from i have i1: "i < length (rows ?df1)"
        by (simp add: len1)
      have a: "blocks ! i \<noteq> []"
        by (rule eb(3) [OF i1])
      have b: "(\<forall>c. c \<notin> ?scaf \<longrightarrow> cell_at r c = cell_at (rows df ! i) c) \<and>
             (if \<exists>e \<in> set (rows ref). ?key e = ?key (rows df ! i)
              then \<exists>e \<in> set (rows ref). ?key e = ?key (rows df ! i) \<and>
                     map_quintile (cell_at e IMD_Decile_header) = Inr (cell_at r ''IMD_Quintile'') \<and>
                     (cell_at e IMD_Decile_header \<noteq> Null \<longrightarrow>
                        cell_at r ''IMD_Quintile'' \<noteq> Str ''Unknown'')
              else cell_at r ''IMD_Quintile'' = Str ''Unknown'')"
        if r: "r \<in> set (blocks ! i)" for r
      proof -
        note f = eb(4) [OF i1 r]
        from f have other: "\<forall>c. c \<notin> ?scaf \<longrightarrow> cell_at r c = cell_at (rows df ! i) c"
          using i by (simp add: row1 cell_at_update)
        from f have q: "map_quintile (cell_at r ''IMD_Decile'') = Inr (cell_at r ''IMD_Quintile'')"
          by blast
        from f consider
          (none) "matches (rows ?imd) (rows ?df1 ! i) = []" "cell_at r ''IMD_Decile'' = Null"
          | (some) m where "m \<in> set (matches (rows ?imd) (rows ?df1 ! i))"
            "cell_at r ''IMD_Decile'' = cell_at m ''IMD_Decile''"
          by blast
        then show ?thesis
        proof cases
          case none
          from none(1) have "\<not> (\<exists>e \<in> set (rows ref). ?key e = ?key (rows df ! i))"
            using in_matches [OF i] by (metis empty_iff list.set(1))
          moreover from q none(2) have "cell_at r ''IMD_Quintile'' = Str ''Unknown''"
            by (simp add: map_quintile_bands(1))
          ultimately show ?thesis using other by simp
        next
          case some
          from some(1) obtain e where e: "e \<in> set (rows ref)" "m = reference_row pd e"
            "?key e = ?key (rows df ! i)"
            using in_matches [OF i] by blast
          from e(1) rk have keys: "fst ` set e \<subseteq> set IMD_COLS"
            by blast
          have dec: "cell_at r ''IMD_Decile'' = cell_at e IMD_Decile_header"
            by (simp add: some(2) e(2) reference_row_cells(2) [OF keys])
          have qe: "map_quintile (cell_at e IMD_Decile_header) = Inr (cell_at r ''IMD_Quintile'')"
            using q by (simp add: dec)
          have "cell_at e IMD_Decile_header \<noteq> Null \<longrightarrow> cell_at r ''IMD_Quintile'' \<noteq> Str ''Unknown''"
            using not_unknown [OF qe] rn e(1) by blast
          with e(1,3) qe other show ?thesis by auto
        qed
      qed
      have c: "\<exists>r \<in> set (blocks ! i).
                map_quintile (cell_at e IMD_Decile_header) = Inr (cell_at r ''IMD_Quintile'')"
        if e: "e \<in> set (rows ref)" "?key e = ?key (rows df ! i)" for e
      proof -
        from e have "reference_row pd e \<in> set (matches (rows ?imd) (rows ?df1 ! i))"
          using in_matches [OF i] by blast
        from eb(5) [OF i1 this] obtain r where r: "r \<in> set (blocks ! i)"
          "cell_at r ''IMD_Decile'' = cell_at (reference_row pd e) ''IMD_Decile''"
          by blast
        from e(1) rk have keys: "fst ` set e \<subseteq> set IMD_COLS"
          by blast
        from eb(4) [OF i1 r(1)] have "map_quintile (cell_at r ''IMD_Decile'') = Inr (cell_at r ''IMD_Quintile'')"
          by blast
        then have "map_quintile (cell_at e IMD_Decile_header) = Inr (cell_at r ''IMD_Quintile'')"
          by (simp add: r(2) reference_row_cells(2) [OF keys])
        with r(1) show ?thesis by blast
      qed
      show ?thesis
        apply (rule conjI, rule a)
        apply (rule conjI, rule ballI, erule b)
        apply (rule ballI, rule impI, erule (1) c)
        done
    qed
    have len: "length blocks = length (rows df)"
      using eb(2) by (simp add: len1)
    show ?thesis
      apply (rule exI [of _ ?df1], rule exI [of _ out], rule exI [of _ blocks])
      apply (rule conjI, rule cjk)
      apply (rule conjI, rule run)
      apply (rule conjI, rule eb(1))
      apply (rule conjI, rule len)
      apply (rule allI, rule impI, erule block)
      done
  qed
  show ?thesis
    apply (rule conjI, rule conjunct1 [OF bands])
    apply (rule conjI, rule conjunct2 [OF bands])
    apply (rule trip)
    done
qed

subsection \<open>C4: rows of the left join\<close>

text \<open>
  Claim C4, as amended. The enrichment left join gives, for every patient row, one
  output row for each reference entry with its join key, and one row with a missing
  decile when there is none: the output never has fewer rows than the input, and it has
  as many when the join keys of the reference table are pairwise distinct, each row then
  carrying the decile of the first (and only) matching entry. A join key listed several
  times in the reference table multiplies the patient rows that have it. Without
  reference data the rows are those of the input.
\<close>

theorem left_join_rows:
  assumes "merge_with_imd_data df imd_df = Inr out"
  shows "length (rows df) \<le> length (rows out) \<and>
    (\<forall>imd. imd_df = Some imd \<and> \<not> is_empty imd \<longrightarrow>
       length (rows out) =
         sum_list (map (\<lambda>l. max 1 (length (matches (rows imd) l))) (rows df)) \<and>
       (distinct (map (\<lambda>e. cell_at e ''Join_Key'') (rows imd)) \<longrightarrow>
          length (rows out) = length (rows df) \<and>
          (\<forall>i < length (rows df).
             cell_at (rows out ! i) ''IMD_Decile'' =
               (case find (\<lambda>e. cell_at e ''Join_Key'' = cell_at (rows df ! i) ''Join_Key'')
                       (rows imd) of
                  None \<Rightarrow> Null
                | Some e \<Rightarrow> cell_at e ''IMD_Decile'')))) \<and>
    (imd_df = None \<or> (\<exists>imd. imd_df = Some imd \<and> is_empty imd) \<longrightarrow>
       length (rows out) = length (rows df))"
proof -
  have avail: "length (rows out) =
         sum_list (map (\<lambda>l. max 1 (length (matches (rows imd) l))) (rows df)) \<and>
       (distinct (map (\<lambda>e. cell_at e ''Join_Key'') (rows imd)) \<longrightarrow>
          length (rows out) = length (rows df) \<and>
          (\<forall>i < length (rows df).
             cell_at (rows out ! i) ''IMD_Decile'' =
               (case find (\<lambda>e. cell_at e ''Join_Key'' = cell_at (rows df ! i) ''Join_Key'')
                       (rows imd) of
                  None \<Rightarrow> Null
                | Some e \<Rightarrow> cell_at e ''IMD_Decile'')))"
    if "imd_df = Some imd" "\<not> is_empty imd" for imd
  proof -
    have rows_out: "rows out = map finish (concat (map (left_merge_row (rows imd)) (rows df)))"
      using merge_with_imd_data_Some(1) assms that by blast
    have count: "length (rows out) =
         sum_list (map (\<lambda>l. max 1 (length (matches (rows imd) l))) (rows df))"
      by (simp add: rows_out length_concat_map length_left_merge_row o_def)
    have single: "length (rows out) = length (rows df) \<and>
          (\<forall>i < length (rows df).
             cell_at (rows out ! i) ''IMD_Decile'' =
               (case find (\<lambda>e. cell_at e ''Join_Key'' = cell_at (rows df ! i) ''Join_Key'')
                       (rows imd) of
                  None \<Rightarrow> Null
                | Some e \<Rightarrow> cell_at e ''IMD_Decile''))"
      if d: "distinct (map (\<lambda>e. cell_at e ''Join_Key'') (rows imd))"
    proof -
      have "left_merge_row (rows imd) =
          (\<lambda>l. [AList.update ''IMD_Decile''
             (case find (\<lambda>e. cell_at e ''Join_Key'' = cell_at l ''Join_Key'') (rows imd) of
                None \<Rightarrow> Null | Some e \<Rightarrow> cell_at e ''IMD_Decile'') l])"
        by (rule ext) (rule left_merge_row_distinct [OF d])
      then have "rows out = map (\<lambda>l. finish (AList.update ''IMD_Decile''
             (case find (\<lambda>e. cell_at e ''Join_Key'' = cell_at l ''Join_Key'') (rows imd) of
                None \<Rightarrow> Null | Some e \<Rightarrow> cell_at e ''IMD_Decile'') l)) (rows df)"
        by (simp add: rows_out concat_map_single)
      then show ?thesis
        by (simp add: finish_cells cell_at_update)
    qed
    from count single show ?thesis by blast
  qed
  have unavail: "length (rows out) = length (rows df)"
    if "imd_df = None \<or> (\<exists>imd. imd_df = Some imd \<and> is_empty imd)"
    using merge_with_imd_data_unavailable [OF assms that] by (simp add: length_rows_setitem)
  have ge: "length (rows df) \<le> length (rows out)"
  proof (cases "imd_df = None \<or> (\<exists>imd. imd_df = Some imd \<and> is_empty imd)")
    case True
    then show ?thesis using unavail by simp
  next
    case False
    then obtain imd where imd: "imd_df = Some imd" "\<not> is_empty imd"
      by (cases imd_df) auto
    have "length xs \<le> sum_list (map (\<lambda>l. max 1 (f l)) xs)" for xs :: "row list" and f :: "row \<Rightarrow> nat"
      by (induction xs) auto
    with avail [OF imd] show ?thesis by simp
  qed
  from avail unavail ge show ?thesis by blast
qed


theorem left_join_rows_witness:
  "merge_with_imd_data one_patient (Some single_reference) = Inr one_patient_enriched \<and>
   \<not> is_empty single_reference \<and>
   distinct (map (\<lambda>e. cell_at e ''Join_Key'') (rows single_reference)) \<and>
   length (rows one_patient_enriched) = length (rows one_patient) \<and>
   cell_at (rows one_patient_enriched ! 0) ''IMD_Decile'' = Num 3"
proof -
  have run: "merge_with_imd_data one_patient (Some single_reference) = Inr one_patient_enriched"
    by code_simp
  have ne: "\<not> is_empty single_reference"
    by (simp add: is_empty_def single_reference_def)
  have d: "distinct (map (\<lambda>e. cell_at e ''Join_Key'') (rows single_reference))"
    by (simp add: single_reference_def cell_at_def)
  from left_join_rows [OF run] ne d
  have "length (rows one_patient_enriched) = length (rows one_patient)"
    by blast
  moreover have "cell_at (rows one_patient_enriched ! 0) ''IMD_Decile'' = Num 3"
    by (simp add: one_patient_enriched_def cell_at_def)
  ultimately show ?thesis using run ne d by blast
qed

text \<open>
  The claim as it was stated fails on a reference table that lists a postcode twice: one
  patient row becomes two.
\<close>

theorem row_multiplication_counterexample:
  "merge_with_imd_data one_patient (Some duplicate_reference) = Inr one_patient_twice \<and>
   length (rows one_patient) = 1 \<and> length (rows one_patient_twice) = 2"
proof -
  have "merge_with_imd_data one_patient (Some duplicate_reference) = Inr one_patient_twice"
    by code_simp
  then show ?thesis
    by (simp add: one_patient_def one_patient_twice_def)
qed


subsection \<open>C7: the scaffolding columns\<close>

text \<open>
  Claim C7, as amended. After enrichment the output table has the column
  \<^verbatim>\<open>IMD_Quintile\<close> in both branches, with the value "Unknown" in every row when the
  reference data is unavailable. When the reference data is available the output has
  neither \<^verbatim>\<open>Postcode\<close> nor \<^verbatim>\<open>Join_Key\<close>, as a column or in any row, and it keeps the
  column \<^verbatim>\<open>IMD_Decile\<close>.
\<close>

theorem scaffolding_columns:
  assumes "merge_with_imd_data df imd_df = Inr out"
  shows "''IMD_Quintile'' \<in> set (columns out) \<and>
    (\<forall>imd. imd_df = Some imd \<and> \<not> is_empty imd \<longrightarrow>
       ''Postcode'' \<notin> set (columns out) \<and> ''Join_Key'' \<notin> set (columns out) \<and>
       ''IMD_Decile'' \<in> set (columns out) \<and>
       (\<forall>r \<in> set (rows out). map_of r ''Postcode'' = None \<and> map_of r ''Join_Key'' = None)) \<and>
    (imd_df = None \<or> (\<exists>imd. imd_df = Some imd \<and> is_empty imd) \<longrightarrow>
       (\<forall>r \<in> set (rows out). cell_at r ''IMD_Quintile'' = Str ''Unknown''))"
proof -
  have avail: "''IMD_Quintile'' \<in> set (columns out) \<and>
       ''Postcode'' \<notin> set (columns out) \<and> ''Join_Key'' \<notin> set (columns out) \<and>
       ''IMD_Decile'' \<in> set (columns out) \<and>
       (\<forall>r \<in> set (rows out). map_of r ''Postcode'' = None \<and> map_of r ''Join_Key'' = None)"
    if "imd_df = Some imd" "\<not> is_empty imd" for imd
  proof -
    have rows_out: "rows out = map finish (concat (map (left_merge_row (rows imd)) (rows df)))"
      and cols: "columns out =
           filter (\<lambda>c. c \<notin> set [''Postcode'', ''Join_Key'', ''Postcode_Gov''])
             (if ''IMD_Quintile'' \<in> set (columns df) then columns df @ [''IMD_Decile'']
              else columns df @ [''IMD_Decile'', ''IMD_Quintile''])"
      using merge_with_imd_data_Some(1,3) assms that by blast+
    show ?thesis
      unfolding cols rows_out by (auto simp: finish_dropped)
  qed
  have unavail: "''IMD_Quintile'' \<in> set (columns out) \<and>
      (\<forall>r \<in> set (rows out). cell_at r ''IMD_Quintile'' = Str ''Unknown'')"
    if "imd_df = None \<or> (\<exists>imd. imd_df = Some imd \<and> is_empty imd)"
    unfolding merge_with_imd_data_unavailable [OF assms that]
    by (auto simp: setitem_def cell_at_update)
  have "''IMD_Quintile'' \<in> set (columns out)"
  proof (cases "imd_df = None \<or> (\<exists>imd. imd_df = Some imd \<and> is_empty imd)")
    case True
    then show ?thesis using unavail by simp
  next
    case False
    then obtain imd where "imd_df = Some imd" "\<not> is_empty imd"
      by (cases imd_df) auto
    then show ?thesis using avail by blast
  qed
  with avail unavail show ?thesis by blast
qed

theorem scaffolding_columns_witness:
  "merge_with_imd_data one_patient (Some single_reference) = Inr one_patient_enriched \<and>
   \<not> is_empty single_reference \<and>
   ''IMD_Quintile'' \<in> set (columns one_patient_enriched) \<and>
   ''Postcode'' \<notin> set (columns one_patient_enriched) \<and>
   ''Join_Key'' \<notin> set (columns one_patient_enriched) \<and>
   ''IMD_Decile'' \<in> set (columns one_patient_enriched)"
proof -
  have run: "merge_with_imd_data one_patient (Some single_reference) = Inr one_patient_enriched"
    by code_simp
  have ne: "\<not> is_empty single_reference"
    by (simp add: is_empty_def single_reference_def)
  from scaffolding_columns [OF run] ne run show ?thesis
    by blast
qed

text \<open>
  The claim as it was stated fails in both branches: the decile column stays when the
  reference data is available, and nothing is dropped when it is not.
\<close>

theorem decile_kept_counterexample:
  "merge_with_imd_data one_patient (Some single_reference) = Inr one_patient_enriched \<and>
   columns one_patient_enriched = [''Age'', ''IMD_Decile'', ''IMD_Quintile''] \<and>
   merge_with_imd_data one_patient None = Inr one_patient_unknown \<and>
   columns one_patient_unknown = [''Age'', ''Postcode'', ''Join_Key'', ''IMD_Quintile'']"
proof -
  have "merge_with_imd_data one_patient (Some single_reference) = Inr one_patient_enriched"
    by code_simp
  moreover have "merge_with_imd_data one_patient None = Inr one_patient_unknown"
    by code_simp
  ultimately show ?thesis
    by (simp add: one_patient_enriched_def one_patient_unknown_def)
qed

subsection \<open>C5: age bands\<close>

lemma age_group_bands:
  "age_group (Num x) =
     (if x < 0 then Null else if x < 15 then Str ''0-15'' else if x < 25 then Str ''15-25''
      else if x < 35 then Str ''25-35'' else if x < 45 then Str ''35-45''
      else if x < 55 then Str ''45-55'' else if x < 65 then Str ''55-65''
      else if x < 75 then Str ''65-75'' else if x < 85 then Str ''75-85''
      else if x < 95 then Str ''85-95'' else if x < 150 then Str ''95+'' else Null)"
  by (simp add: age_group_def age_bins_def age_labels_def)

lemma age_group_Null: "age_group Null = Null"
  by (simp add: age_group_def)

lemma age_group_cell:
  assumes "create_age_groups pd df = Inr df'" and "i < length (rows df)"
  shows "cell_at (rows df' ! i) ''Age_Group'' =
      age_group (to_numeric_cell pd (cell_at (rows df ! i) ''Age''))"
proof -
  have "df' = setitem ''Age_Group'' (\<lambda>r. age_group (cell_at r ''Age''))
                 (setitem ''Age'' (\<lambda>r. to_numeric_cell pd (cell_at r ''Age'')) df)"
    using assms(1) by (auto simp: create_age_groups_def split: if_splits)
  then show ?thesis
    using assms(2) by (simp add: row_setitem length_rows_setitem cell_at_update)
qed


text \<open>
  Claim C5, as amended. Age bucketing uses right-open bands with inclusive lower bounds
  over the boundaries 0, 15, 25, 35, 45, 55, 65, 75, 85, 95, 150: an age of 15 is in
  "15-25" and not in "0-15", an age of 95 is in "95+", and an age of 150, an age of -1,
  a missing age and a text that is no number have no age group. The last band is
  [95, 150): it does not hold 150.
\<close>

theorem age_bucketing:
  assumes "create_age_groups pd df = Inr df'" and "i < length (rows df)"
  shows "length (rows df') = length (rows df) \<and>
    (\<forall>x. cell_at (rows df ! i) ''Age'' = Num x \<longrightarrow>
       cell_at (rows df' ! i) ''Age_Group'' =
         (if x < 0 then Null else if x < 15 then Str ''0-15'' else if x < 25 then Str ''15-25''
          else if x < 35 then Str ''25-35'' else if x < 45 then Str ''35-45''
          else if x < 55 then Str ''45-55'' else if x < 65 then Str ''55-65''
          else if x < 75 then Str ''65-75'' else if x < 85 then Str ''75-85''
          else if x < 95 then Str ''85-95'' else if x < 150 then Str ''95+'' else Null)) \<and>
    (cell_at (rows df ! i) ''Age'' = Num 15 \<longrightarrow> cell_at (rows df' ! i) ''Age_Group'' = Str ''15-25'') \<and>
    (cell_at (rows df ! i) ''Age'' = Num 95 \<longrightarrow> cell_at (rows df' ! i) ''Age_Group'' = Str ''95+'') \<and>
    (cell_at (rows df ! i) ''Age'' = Num 150 \<longrightarrow> cell_at (rows df' ! i) ''Age_Group'' = Null) \<and>
    (cell_at (rows df ! i) ''Age'' = Num (- 1) \<longrightarrow> cell_at (rows df' ! i) ''Age_Group'' = Null) \<and>
    (cell_at (rows df ! i) ''Age'' = Null \<longrightarrow> cell_at (rows df' ! i) ''Age_Group'' = Null) \<and>
    ((\<exists>s. cell_at (rows df ! i) ''Age'' = Str s) \<and> to_numeric pd (cell_at (rows df ! i) ''Age'') = None \<longrightarrow>
       cell_at (rows df' ! i) ''Age_Group'' = Null)"
proof -
  have len: "length (rows df') = length (rows df)"
    using assms(1) by (auto simp: create_age_groups_def length_rows_setitem split: if_splits)
  note g = age_group_cell [OF assms]
  show ?thesis
    unfolding g using len
    by (auto simp: to_numeric_cell_def age_group_bands age_group_Null)
qed

theorem age_bucketing_witness:
  "create_age_groups plain_pandas ages = Inr ages_out \<and> (0::nat) < length (rows ages) \<and>
   cell_at (rows ages ! 0) ''Age'' = Num 15 \<and>
   cell_at (rows ages_out ! 0) ''Age_Group'' = Str ''15-25''"
proof -
  have run: "create_age_groups plain_pandas ages = Inr ages_out"
    by code_simp
  have i: "(0::nat) < length (rows ages)"
    by (simp add: ages_def)
  have age: "cell_at (rows ages ! 0) ''Age'' = Num 15"
    by (simp add: ages_def cell_at_def)
  from age_bucketing [OF run i] age
  have "cell_at (rows ages_out ! 0) ''Age_Group'' = Str ''15-25''"
    by blast
  with run i age show ?thesis by blast
qed


text \<open>
  The claim as it was stated gives the age 150 the group "95+"; the code leaves it
  without a group.
\<close>

theorem age_150_counterexample:
  "create_age_groups plain_pandas ages = Inr ages_out \<and>
   getitem ages ''Age'' = Inr [Num 15, Num 95, Num 150, Num (- 1), Null, Str ''abc''] \<and>
   getitem ages_out ''Age_Group'' = Inr [Str ''15-25'', Str ''95+'', Null, Null, Null, Null]"
proof -
  have "create_age_groups plain_pandas ages = Inr ages_out"
    by code_simp
  moreover have "getitem ages ''Age'' = Inr [Num 15, Num 95, Num 150, Num (- 1), Null, Str ''abc'']"
    by (simp add: getitem_def ages_def cell_at_def)
  moreover have "getitem ages_out ''Age_Group'' = Inr [Str ''15-25'', Str ''95+'', Null, Null, Null, Null]"
    by (simp add: getitem_def ages_out_def cell_at_def)
  ultimately show ?thesis by blast
qed

subsection \<open>C8: quintiles and the postcode round trip\<close>

text \<open>
  Claim C8, as amended. The quintile of a decile is "1 - Most Deprived" up to 2, "2" up
  to 4, "3" up to 6, "4" up to 8, "5 - Least Deprived" above 8 (so for 9 and 10) and
  "Unknown" for a missing decile. Take a patient table with distinct column labels, a
  postcode column and no decile column, a reference file read with its two columns and
  deciles that are numbers or blank, and postcodes that are ASCII texts. Then the
  enrichment of the pipeline returns a table whose rows come in one block per patient
  row, keeping the patient's other fields. When a reference entry has the patient's
  normalised postcode (upper case, spaces removed), every row of that patient's block
  takes its quintile from the decile of such an entry: it is "Unknown" only when that
  entry's decile is blank. Every matching entry is used by some row of the block, and
  when no entry matches the quintile is "Unknown".
\<close>

theorem quintile_round_trip:
  assumes pc: "''Postcode'' \<in> set (columns df)" and dc: "distinct (columns df)"
    and nd: "''IMD_Decile'' \<notin> set (columns df)"
    and rd: "distinct (columns ref)" and rs: "set (columns ref) = set IMD_COLS"
    and rk: "\<forall>e \<in> set (rows ref). fst ` set e \<subseteq> set IMD_COLS"
    and rn: "\<forall>e \<in> set (rows ref). is_numeric (cell_at e IMD_Decile_header)"
    and pa: "\<forall>r \<in> set (rows df). is_ascii (str_of_cell pd (cell_at r ''Postcode''))"
    and ra: "\<forall>e \<in> set (rows ref). is_ascii (str_of_cell pd (cell_at e ''Postcode''))"
  shows "map_quintile Null = Inr (Str ''Unknown'') \<and>
    (\<forall>d. (d \<le> 2 \<longrightarrow> map_quintile (Num d) = Inr (Str ''1 - Most Deprived'')) \<and>
         (2 < d \<and> d \<le> 4 \<longrightarrow> map_quintile (Num d) = Inr (Str ''2'')) \<and>
         (4 < d \<and> d \<le> 6 \<longrightarrow> map_quintile (Num d) = Inr (Str ''3'')) \<and>
         (6 < d \<and> d \<le> 8 \<longrightarrow> map_quintile (Num d) = Inr (Str ''4'')) \<and>
         (8 < d \<longrightarrow> map_quintile (Num d) = Inr (Str ''5 - Least Deprived''))) \<and>
    (\<exists>df1 out blocks.
       create_join_keys pd df = Inr df1 \<and>
       merge_with_imd_data df1 (Some (fst (load_imd_data pd (Inr ref)))) = Inr out \<and>
       rows out = concat blocks \<and> length blocks = length (rows df) \<and>
       (\<forall>i < length (rows df).
          blocks ! i \<noteq> [] \<and>
          (\<forall>r \<in> set (blocks ! i).
             (\<forall>c. c \<notin> {''Postcode'', ''Join_Key'', ''Postcode_Gov'', ''IMD_Decile'', ''IMD_Quintile''} \<longrightarrow>
                cell_at r c = cell_at (rows df ! i) c) \<and>
             (if \<exists>e \<in> set (rows ref).
                   normalized_postcode (str_of_cell pd (cell_at e ''Postcode'')) =
                     normalized_postcode (str_of_cell pd (cell_at (rows df ! i) ''Postcode''))
              then \<exists>e \<in> set (rows ref).
                     normalized_postcode (str_of_cell pd (cell_at e ''Postcode'')) =
                       normalized_postcode (str_of_cell pd (cell_at (rows df ! i) ''Postcode'')) \<and>
                     map_quintile (cell_at e IMD_Decile_header) = Inr (cell_at r ''IMD_Quintile'') \<and>
                     (cell_at e IMD_Decile_header \<noteq> Null \<longrightarrow>
                        cell_at r ''IMD_Quintile'' \<noteq> Str ''Unknown'')
              else cell_at r ''IMD_Quintile'' = Str ''Unknown'')) \<and>
          (\<forall>e \<in> set (rows ref).
             normalized_postcode (str_of_cell pd (cell_at e ''Postcode'')) =
                     normalized_postcode (str_of_cell pd (cell_at (rows df ! i) ''Postcode'')) \<longrightarrow>
             (\<exists>r \<in> set (blocks ! i).
                map_quintile (cell_at e IMD_Decile_header) = Inr (cell_at r ''IMD_Quintile'')))))"
  by (rule round_trip_by_join_key [OF pc dc nd rd rs rk rn, of pd,
        unfolded join_key_normalized cell.inject])

theorem quintile_round_trip_witness:
  "''Postcode'' \<in> set (columns raw_patient) \<and> distinct (columns raw_patient) \<and>
   ''IMD_Decile'' \<notin> set (columns raw_patient) \<and>
   columns reference_file = IMD_COLS \<and>
   is_ascii ''ab1 2cd'' \<and> normalized_postcode ''ab1 2cd'' = ''AB12CD'' \<and>
   normalized_postcode ''AB1 2CD'' = ''AB12CD'' \<and>
   load_imd_data plain_pandas (Inr reference_file) = (single_reference, []) \<and>
   create_join_keys plain_pandas raw_patient = Inr one_patient \<and>
   merge_with_imd_data one_patient (Some single_reference) = Inr one_patient_enriched \<and>
   getitem one_patient_enriched ''IMD_Quintile'' = Inr [Str ''2''] \<and>
   (\<exists>df1 out blocks.
      create_join_keys plain_pandas raw_patient = Inr df1 \<and>
      merge_with_imd_data df1 (Some (fst (load_imd_data plain_pandas (Inr reference_file)))) =
        Inr out \<and>
      rows out = concat blocks \<and> length blocks = length (rows raw_patient))"
proof -
  have pc: "''Postcode'' \<in> set (columns raw_patient)"
    and dc: "distinct (columns raw_patient)"
    and nd: "''IMD_Decile'' \<notin> set (columns raw_patient)"
    by (simp_all add: raw_patient_def)
  have cols: "columns reference_file = IMD_COLS"
    by (simp add: reference_file_def)
  have rd: "distinct (columns reference_file)"
    by (simp add: cols IMD_COLS_def IMD_Decile_header_def)
  have rs: "set (columns reference_file) = set IMD_COLS"
    by (simp add: cols)
  have rk: "\<forall>e \<in> set (rows reference_file). fst ` set e \<subseteq> set IMD_COLS"
    by (simp add: reference_file_def IMD_COLS_def)
  have rn: "\<forall>e \<in> set (rows reference_file). is_numeric (cell_at e IMD_Decile_header)"
    by (simp add: reference_file_def cell_at_def is_numeric_def IMD_Decile_header_def)
  have pa: "\<forall>r \<in> set (rows raw_patient).
      is_ascii (str_of_cell plain_pandas (cell_at r ''Postcode''))"
    by code_simp
  have ra: "\<forall>e \<in> set (rows reference_file).
      is_ascii (str_of_cell plain_pandas (cell_at e ''Postcode''))"
    by code_simp
  have asc: "is_ascii ''ab1 2cd''"
    by code_simp
  have n1: "normalized_postcode ''ab1 2cd'' = ''AB12CD''"
    by code_simp
  have n2: "normalized_postcode ''AB1 2CD'' = ''AB12CD''"
    by code_simp
  have load: "load_imd_data plain_pandas (Inr reference_file) = (single_reference, [])"
    by code_simp
  have keys: "create_join_keys plain_pandas raw_patient = Inr one_patient"
    by code_simp
  have run: "merge_with_imd_data one_patient (Some single_reference) = Inr one_patient_enriched"
    by code_simp
  have q: "getitem one_patient_enriched ''IMD_Quintile'' = Inr [Str ''2'']"
    by (simp add: getitem_def one_patient_enriched_def cell_at_def)
  from quintile_round_trip [OF pc dc nd rd rs rk rn pa ra]
  have "\<exists>df1 out blocks.
      create_join_keys plain_pandas raw_patient = Inr df1 \<and>
      merge_with_imd_data df1 (Some (fst (load_imd_data plain_pandas (Inr reference_file)))) =
        Inr out \<and>
      rows out = concat blocks \<and> length blocks = length (rows raw_patient)"
    by (elim conjE exE) (intro exI conjI, assumption+)
  with pc dc nd cols asc n1 n2 load keys run q show ?thesis
    by (intro conjI)
qed

text \<open>
  The claim as it was stated promises a quintile other than "Unknown" for every patient
  whose normalised postcode is in the reference data. A reference entry with a blank
  decile matches and gives "Unknown".
\<close>

theorem blank_decile_counterexample:
  "getitem raw_patient ''Postcode'' = Inr [Str ''ab1 2cd''] \<and>
   getitem blank_decile_file ''Postcode'' = Inr [Str ''AB1 2CD''] \<and>
   normalized_postcode ''ab1 2cd'' = normalized_postcode ''AB1 2CD'' \<and>
   load_imd_data plain_pandas (Inr blank_decile_file) = (blank_reference, []) \<and>
   create_join_keys plain_pandas raw_patient = Inr one_patient \<and>
   merge_with_imd_data one_patient (Some blank_reference) = Inr one_patient_blank \<and>
   getitem one_patient_blank ''IMD_Quintile'' = Inr [Str ''Unknown'']"
proof -
  have "getitem raw_patient ''Postcode'' = Inr [Str ''ab1 2cd'']"
    by (simp add: getitem_def raw_patient_def cell_at_def)
  moreover have "getitem blank_decile_file ''Postcode'' = Inr [Str ''AB1 2CD'']"
    by (simp add: getitem_def blank_decile_file_def cell_at_def IMD_COLS_def)
  moreover have "normalized_postcode ''ab1 2cd'' = normalized_postcode ''AB1 2CD''"
    by code_simp
  moreover have "load_imd_data plain_pandas (Inr blank_decile_file) = (blank_reference, [])"
    by code_simp
  moreover have "create_join_keys plain_pandas raw_patient = Inr one_patient"
    by code_simp
  moreover have "merge_with_imd_data one_patient (Some blank_reference) = Inr one_patient_blank"
    by code_simp
  moreover have "getitem one_patient_blank ''IMD_Quintile'' = Inr [Str ''Unknown'']"
    by (simp add: getitem_def one_patient_blank_def cell_at_def)
  ultimately show ?thesis
    by (intro conjI)
qed

subsection \<open>The pipeline up to the date conversion\<close>






lemma enrich_no_postcode:
  assumes "load_and_clean_pain_data file = Inr df" and "''Postcode'' \<notin> set (columns df)"
  shows "enrich pd file imd_df = Inl (KeyError ''Postcode'')"
  using assms by (simp add: enrich_def create_join_keys_def)

lemma enrich_unavailable:
  assumes "load_and_clean_pain_data file = Inr df" and "''Postcode'' \<in> set (columns df)"
    and "distinct (columns df)"
    and "imd_df = None \<or> (\<exists>imd. imd_df = Some imd \<and> is_empty imd)"
  shows "enrich pd file imd_df =
      Inr (setitem ''IMD_Quintile'' (\<lambda>r. Str ''Unknown'')
             (setitem ''Join_Key'' (\<lambda>r. join_key pd (cell_at r ''Postcode'')) df))"
  using assms(1,4) create_join_keys_ok [OF assms(2,3), of pd]
  by (auto simp: enrich_def merge_with_imd_data_def)

lemma process_monthly_data_enrich_fails:
  assumes "enrich pd file imd_df = Inl e"
  shows "process_monthly_data pd file imd_df = (None, [Error_processing_file e])"
  using assms by (simp add: process_monthly_data_def process_steps_def)


subsection \<open>C3: a table without postcodes\<close>

text \<open>
  Claim C3, as amended. For every input export whose table, after the headers are
  stripped, has no \<^verbatim>\<open>Postcode\<close> column, the pipeline fails as a whole:
  \<^verbatim>\<open>create_join_keys\<close> raises a KeyError, \<^verbatim>\<open>process_monthly_data\<close> prints it and
  returns \<^verbatim>\<open>None\<close>, with or without reference data. The quintile "Unknown" for every
  record is what the enrichment gives a table that has the column (once, among distinct
  labels) when the reference data is unavailable. Headers are ASCII texts.
\<close>

theorem postcode_required:
  assumes raw: "load_and_clean_pain_data (Inr raw) = Inr df"
    and asc: "list_all is_ascii (columns raw)"
  shows "(''Postcode'' \<notin> set (columns df) \<longrightarrow>
       process_monthly_data pd (Inr raw) imd_df =
         (None, [Error_processing_file (KeyError ''Postcode'')])) \<and>
    (''Postcode'' \<in> set (columns df) \<and> distinct (columns df) \<and>
     (imd_df = None \<or> (\<exists>imd. imd_df = Some imd \<and> is_empty imd)) \<longrightarrow>
       (\<exists>out. enrich pd (Inr raw) imd_df = Inr out \<and>
          length (rows out) = length (rows df) \<and>
          ''IMD_Quintile'' \<in> set (columns out) \<and>
          (\<forall>r \<in> set (rows out). cell_at r ''IMD_Quintile'' = Str ''Unknown'')))"
proof -
  have fails: "process_monthly_data pd (Inr raw) imd_df =
      (None, [Error_processing_file (KeyError ''Postcode'')])"
    if "''Postcode'' \<notin> set (columns df)"
    using process_monthly_data_enrich_fails [OF enrich_no_postcode [OF raw that]] .
  have degrades: "\<exists>out. enrich pd (Inr raw) imd_df = Inr out \<and>
          length (rows out) = length (rows df) \<and>
          ''IMD_Quintile'' \<in> set (columns out) \<and>
          (\<forall>r \<in> set (rows out). cell_at r ''IMD_Quintile'' = Str ''Unknown'')"
    if "''Postcode'' \<in> set (columns df)" "distinct (columns df)"
      "imd_df = None \<or> (\<exists>imd. imd_df = Some imd \<and> is_empty imd)"
    unfolding enrich_unavailable [OF raw that]
    by (auto simp: setitem_def cell_at_update)
  from fails degrades show ?thesis by blast
qed

theorem postcode_required_witness:
  "load_and_clean_pain_data (Inr no_postcode) = Inr no_postcode \<and>
   list_all is_ascii (columns no_postcode) \<and>
   ''Postcode'' \<notin> set (columns no_postcode) \<and>
   process_monthly_data plain_pandas (Inr no_postcode) (Some single_reference) =
     (None, [Error_processing_file (KeyError ''Postcode'')])"
proof -
  have raw: "load_and_clean_pain_data (Inr no_postcode) = Inr no_postcode"
    by code_simp
  have asc: "list_all is_ascii (columns no_postcode)"
    by code_simp
  have np: "''Postcode'' \<notin> set (columns no_postcode)"
    by (simp add: no_postcode_def)
  from postcode_required [OF raw asc, of plain_pandas "Some single_reference"] np
  have "process_monthly_data plain_pandas (Inr no_postcode) (Some single_reference) =
     (None, [Error_processing_file (KeyError ''Postcode'')])"
    by blast
  with raw asc np show ?thesis by (intro conjI)
qed

text \<open>
  The claim as it was stated has the pipeline return the enriched table for a non-empty
  export without postcodes; it returns \<^verbatim>\<open>None\<close>.
\<close>

theorem missing_postcode_counterexample:
  "rows no_postcode \<noteq> [] \<and> columns no_postcode = [''Age'', ''Arrival DTTM''] \<and>
   load_and_clean_pain_data (Inr no_postcode) = Inr no_postcode \<and>
   process_monthly_data plain_pandas (Inr no_postcode) None =
     (None, [Error_processing_file (KeyError ''Postcode'')])"
proof -
  have "rows no_postcode \<noteq> []" "columns no_postcode = [''Age'', ''Arrival DTTM'']"
    by (simp_all add: no_postcode_def)
  moreover have "load_and_clean_pain_data (Inr no_postcode) = Inr no_postcode"
    by code_simp
  moreover have "process_monthly_data plain_pandas (Inr no_postcode) None =
     (None, [Error_processing_file (KeyError ''Postcode'')])"
    by code_simp
  ultimately show ?thesis by (intro conjI)
qed

subsection \<open>C10: a table without arrival times\<close>




subsection \<open>Groups and their outcome values\<close>











subsection \<open>C9: the statistical dispatcher\<close>




end
